theory Spec2Isabelle
  imports Complex_Main
begin

section \<open>Strings\<close>

text \<open>
  A Python \<^verbatim>\<open>str\<close> is a sequence of Unicode code points, here natural numbers.
  \<open>lit\<close> gives the code points of a literal written in ASCII.
\<close>

type_synonym str = "nat list"

definition lit :: "string \<Rightarrow> str" where
  "lit s = map of_char s"

text \<open>
  The code points that \<^verbatim>\<open>str.isspace\<close> holds for one character; they are the ones
  that \<^verbatim>\<open>str.strip()\<close> removes and that the class \<^verbatim>\<open>\s\<close> of a regular
  expression on a \<^verbatim>\<open>str\<close> matches: tab to carriage return, the separators 28 to 31,
  the space, U+0085, U+00A0, U+1680, U+2000 to U+200A, U+2028, U+2029, U+202F, U+205F and
  U+3000.
\<close>

definition is_space :: "nat \<Rightarrow> bool" where
  "is_space c =
     ((9 \<le> c \<and> c \<le> 13) \<or> (28 \<le> c \<and> c \<le> 32) \<or> c = 133 \<or> c = 160 \<or> c = 5760 \<or>
      (8192 \<le> c \<and> c \<le> 8202) \<or> c = 8232 \<or> c = 8233 \<or> c = 8239 \<or> c = 8287 \<or> c = 12288)"

definition strip :: "str \<Rightarrow> str" where
  "strip s = rev (dropWhile is_space (rev (dropWhile is_space s)))"

section \<open>Exceptions\<close>

text \<open>
  The Python classes of the exceptions that \<^verbatim>\<open>solana_manager.py\<close> raises or lets
  through. \<^verbatim>\<open>RecipientParseError\<close> extends \<^verbatim>\<open>ValueError\<close>;
  \<^verbatim>\<open>WalletLoadError\<close> and \<^verbatim>\<open>WalletNotLoadedError\<close> extend
  \<^verbatim>\<open>RuntimeError\<close>; \<^verbatim>\<open>json.JSONDecodeError\<close> extends
  \<^verbatim>\<open>ValueError\<close>. \<open>OtherException\<close> stands for every class raised by a
  collaborator (transport, file system, decimal arithmetic) that is none of the others.
  All of them extend \<^verbatim>\<open>Exception\<close>.
\<close>

datatype exn_class =
  ValueError | TypeError | RuntimeError | TimeoutError | OverflowError | IndexError
  | JSONDecodeError | WalletLoadError | RecipientParseError | WalletNotLoadedError
  | OtherException

text \<open>
  A signature status as the transport returns it: \<^verbatim>\<open>status.err\<close>,
  \<^verbatim>\<open>str(status.confirmation_status)\<close> and \<^verbatim>\<open>status.confirmations\<close>,
  each of them possibly \<^verbatim>\<open>None\<close>.
\<close>

record tx_status =
  err :: "string option"
  confirmation_status :: "str option"
  confirmations :: "nat option"

text \<open>
  One constructor for every \<^verbatim>\<open>raise\<close> of the source, carrying the values that the
  message interpolates; \<open>Raised\<close> is an exception coming out of a collaborator.
\<close>

datatype error =
    NoValidEndpoint                                     \<comment> \<open>line 104\<close>
  | MaxRetriesTooSmall                                  \<comment> \<open>line 107\<close>
  | BackoffNegative                                     \<comment> \<open>line 111\<close>
  | RetriesExhausted int "str list" "error option"      \<comment> \<open>line 134: attempts, pool, last error\<close>
  | WalletFileNotFound string                           \<comment> \<open>line 163\<close>
  | WalletFileEmpty string                              \<comment> \<open>line 166\<close>
  | SecretNotReadable string                            \<comment> \<open>line 178\<close>
  | RecipientFileNotFound string                        \<comment> \<open>line 257\<close>
  | NoValidRecipients                                   \<comment> \<open>line 289\<close>
  | NoRecipientLines                                    \<comment> \<open>line 290\<close>
  | BatchSizeTooSmall                                   \<comment> \<open>line 306\<close>
  | LineEmpty nat                                       \<comment> \<open>line 390\<close>
  | InvalidAddress nat str                              \<comment> \<open>line 395\<close>
  | InvalidAmount nat str                               \<comment> \<open>line 403\<close>
  | NoAmount nat                                        \<comment> \<open>line 408\<close>
  | WalletNotLoaded                                     \<comment> \<open>line 421\<close>
  | BadSecretLength                                     \<comment> \<open>line 429\<close>
  | AmountNotPositive                                   \<comment> \<open>line 437\<close>
  | AmountTooSmall                                      \<comment> \<open>line 440\<close>
  | TransactionFailed str string                        \<comment> \<open>line 459: signature, err\<close>
  | NotConfirmed str real "tx_status option"            \<comment> \<open>line 468: signature, timeout, last status\<close>
  | NoSignatureInResponse                               \<comment> \<open>line 481\<close>
  | Raised exn_class string

fun class_of :: "error \<Rightarrow> exn_class" where
  "class_of NoValidEndpoint = ValueError"
| "class_of MaxRetriesTooSmall = ValueError"
| "class_of BackoffNegative = ValueError"
| "class_of (RetriesExhausted n pool e) = RuntimeError"
| "class_of (WalletFileNotFound p) = WalletLoadError"
| "class_of (WalletFileEmpty p) = WalletLoadError"
| "class_of (SecretNotReadable p) = WalletLoadError"
| "class_of (RecipientFileNotFound p) = RecipientParseError"
| "class_of NoValidRecipients = RecipientParseError"
| "class_of NoRecipientLines = RecipientParseError"
| "class_of BatchSizeTooSmall = ValueError"
| "class_of (LineEmpty n) = RecipientParseError"
| "class_of (InvalidAddress n a) = RecipientParseError"
| "class_of (InvalidAmount n a) = RecipientParseError"
| "class_of (NoAmount n) = RecipientParseError"
| "class_of WalletNotLoaded = WalletNotLoadedError"
| "class_of BadSecretLength = WalletLoadError"
| "class_of AmountNotPositive = ValueError"
| "class_of AmountTooSmall = ValueError"
| "class_of (TransactionFailed s e) = RuntimeError"
| "class_of (NotConfirmed s t st) = TimeoutError"
| "class_of NoSignatureInResponse = RuntimeError"
| "class_of (Raised c s) = c"

text \<open>
  The warnings of \<^verbatim>\<open>read_recipients_from_file\<close>: the text of a
  \<^verbatim>\<open>RecipientParseError\<close> caught on a line (line 269), or the notice of line 283,
  which names an address and the number of times it appears.
\<close>

datatype warning = LineWarning error | DuplicateWarning str nat

section \<open>The manager's state\<close>

text \<open>
  \<^verbatim>\<open>Client(endpoint, timeout=timeout)\<close>: the transport client is known by the
  two values it was built from.
\<close>

record client =
  client_endpoint :: str
  client_timeout :: real

text \<open>
  A key pair is known by the constructor that built it and the bytes it was built from
  (\<^verbatim>\<open>Keypair.from_bytes\<close>, \<^verbatim>\<open>Keypair.from_seed\<close>).
\<close>

datatype keypair = FromBytes "nat list" | FromSeed "nat list"

text \<open>
  The attributes of \<^verbatim>\<open>SolanaPayoutManager\<close>. Python's \<^verbatim>\<open>float\<close> values
  (time-outs, back-off) are read as real numbers: a finite float stands for the number it
  holds, and the rounding of float arithmetic is left out; an infinite float and a NaN
  have no counterpart.
\<close>

record manager =
  timeout :: real
  max_retries_per_endpoint :: int
  retry_backoff_seconds :: real
  accounts_query_chunk :: int
  default_max_recipients_per_tx :: int
  default_compute_unit_limit :: "int option"
  default_compute_unit_price :: "int option"
  rpc_endpoints :: "str list"
  current_endpoint_index :: nat
  endpoint :: str
  client :: client
  last_recipient_warnings :: "warning list"
  wallet :: "keypair option"

section \<open>Pool management\<close>

text \<open>The loop of \<^verbatim>\<open>set_rpc_pool\<close> (lines 96 to 102), with its two accumulators.\<close>

fun collect_unique :: "str list \<Rightarrow> str list \<Rightarrow> str set \<Rightarrow> str list" where
  "collect_unique [] unique seen = unique"
| "collect_unique (e # es) unique seen =
     (let cleaned = strip e in
      if cleaned = [] then collect_unique es unique seen
      else if cleaned \<notin> seen then collect_unique es (unique @ [cleaned]) (insert cleaned seen)
      else collect_unique es unique seen)"

text \<open>
  \<^verbatim>\<open>set_rpc_pool\<close> (lines 87 to 118). The result is the exception raised, if any,
  together with the manager as the call leaves it: the assignments made before a
  \<^verbatim>\<open>raise\<close> stay.
\<close>

definition set_rpc_pool ::
  "str list \<Rightarrow> int option \<Rightarrow> real option \<Rightarrow> real option \<Rightarrow> manager \<Rightarrow> (error + unit) \<times> manager"
where
  "set_rpc_pool endpoints max_retries retry_backoff timeout_arg m =
     (let unique = collect_unique endpoints [] {} in
      if unique = [] then (Inl NoValidEndpoint, m)
      else
        (case (case max_retries of
                 None \<Rightarrow> Inr m
               | Some r \<Rightarrow> if r < 1 then Inl MaxRetriesTooSmall
                           else Inr (m\<lparr>max_retries_per_endpoint := r\<rparr>)) of
           Inl e \<Rightarrow> (Inl e, m)
         | Inr m1 \<Rightarrow>
            (case (case retry_backoff of
                     None \<Rightarrow> Inr m1
                   | Some b \<Rightarrow> if b < 0 then Inl BackoffNegative
                               else Inr (m1\<lparr>retry_backoff_seconds := b\<rparr>)) of
               Inl e \<Rightarrow> (Inl e, m1)
             | Inr m2 \<Rightarrow>
                (let m3 = (case timeout_arg of None \<Rightarrow> m2 | Some t \<Rightarrow> m2\<lparr>timeout := t\<rparr>);
                     m4 = m3\<lparr>rpc_endpoints := unique, current_endpoint_index := 0\<rparr>;
                     m5 = m4\<lparr>endpoint := hd (rpc_endpoints m4)\<rparr>
                 in (Inr (), m5\<lparr>client := \<lparr>client_endpoint = endpoint m5,
                                               client_timeout = timeout m5\<rparr>\<rparr>)))))"

definition DEVNET_RPC_URL :: str where
  "DEVNET_RPC_URL = lit ''https://api.devnet.solana.com''"

definition ANKR_DEVNET_RPC :: str where
  "ANKR_DEVNET_RPC = lit ''https://rpc.ankr.com/solana_devnet''"

text \<open>
  \<^verbatim>\<open>__init__\<close> (lines 56 to 78). The attributes \<^verbatim>\<open>endpoint\<close> and
  \<^verbatim>\<open>wallet\<close> do not exist before \<^verbatim>\<open>set_rpc_pool\<close> and
  \<^verbatim>\<open>load_wallet_from_file\<close> set them; here they start as the empty string and
  \<open>None\<close>. A constructor that raises builds no manager.
\<close>

definition init ::
  "str \<Rightarrow> real \<Rightarrow> int \<Rightarrow> real \<Rightarrow> int \<Rightarrow> int \<Rightarrow> int option \<Rightarrow> int option \<Rightarrow> error + manager"
where
  "init endpoint_arg timeout_arg max_retries retry_backoff query_chunk max_recipients
        unit_limit unit_price =
     (let m = \<lparr>timeout = timeout_arg,
               max_retries_per_endpoint = max 1 max_retries,
               retry_backoff_seconds = max 0 retry_backoff,
               accounts_query_chunk = max 1 query_chunk,
               default_max_recipients_per_tx = max 1 max_recipients,
               default_compute_unit_limit = unit_limit,
               default_compute_unit_price = unit_price,
               rpc_endpoints = [],
               current_endpoint_index = 0,
               endpoint = [],
               client = \<lparr>client_endpoint = endpoint_arg, client_timeout = timeout_arg\<rparr>,
               last_recipient_warnings = [],
               wallet = None\<rparr>
      in case set_rpc_pool [endpoint_arg] None None None m of
           (Inl e, m') \<Rightarrow> Inl e
         | (Inr u, m') \<Rightarrow> Inr m')"

text \<open>\<^verbatim>\<open>SolanaPayoutManager()\<close>, every argument at its default.\<close>

definition default_manager :: manager where
  "default_manager =
     \<lparr>timeout = 10, max_retries_per_endpoint = 3, retry_backoff_seconds = 1 / 2,
      accounts_query_chunk = 95, default_max_recipients_per_tx = 10,
      default_compute_unit_limit = Some 200000, default_compute_unit_price = None,
      rpc_endpoints = [DEVNET_RPC_URL], current_endpoint_index = 0,
      endpoint = DEVNET_RPC_URL,
      client = \<lparr>client_endpoint = DEVNET_RPC_URL, client_timeout = 10\<rparr>,
      last_recipient_warnings = [], wallet = None\<rparr>"

section \<open>Loading the wallet\<close>

text \<open>What \<^verbatim>\<open>json.loads\<close> returns.\<close>

datatype json =
  JNull | JBool bool | JInt int | JFloat real | JNaN | JInfinity
  | JStr str | JList "json list" | JObj "(str \<times> json) list"

text \<open>
  A value of Python's \<^verbatim>\<open>decimal.Decimal\<close>: a finite number, given by its signed
  coefficient and its exponent (\<open>Dec c e\<close> is \<open>c\<close> times ten to the \<open>e\<close>), an
  infinity (\<open>DecInf True\<close> the positive one) or a NaN.
\<close>

datatype decimal = Dec int int | DecInf bool | DecNaN

text \<open>
  The functions of other packages that the manager calls, taken as parameters:
  \<^verbatim>\<open>json.loads\<close> with the exception it raises, if any
  (\<^verbatim>\<open>JSONDecodeError\<close> on a text that is not JSON; a \<^verbatim>\<open>ValueError\<close> or a
  \<^verbatim>\<open>RecursionError\<close> on some texts that are too long or too deep), \<^verbatim>\<open>int\<close>
  on a string, \<^verbatim>\<open>base58.b58decode\<close> (\<open>None\<close> for the \<^verbatim>\<open>ValueError\<close> it
  raises), whether \<^verbatim>\<open>Keypair.from_bytes\<close> accepts 64 bytes,
  \<^verbatim>\<open>str(keypair.pubkey())\<close>, whether \<^verbatim>\<open>Pubkey.from_string\<close> accepts an
  address, the constructor \<^verbatim>\<open>Decimal\<close> on a string (\<open>None\<close> when it raises), and
  whether \<^verbatim>\<open>Signature.from_string\<close> accepts a signature.
\<close>

record library =
  json_loads :: "str \<Rightarrow> error + json"
  int_of_str :: "str \<Rightarrow> int option"
  b58decode :: "str \<Rightarrow> nat list option"
  keypair_accepted :: "nat list \<Rightarrow> bool"
  pubkey_str :: "keypair \<Rightarrow> str"
  pubkey_accepted :: "str \<Rightarrow> bool"
  decimal_of_str :: "str \<Rightarrow> decimal option"
  signature_accepted :: "str \<Rightarrow> bool"

text \<open>
  A file as a function finds it: missing, there but not readable (the exception that
  \<^verbatim>\<open>read_text\<close> raises, a \<^verbatim>\<open>UnicodeDecodeError\<close> or an
  \<^verbatim>\<open>OSError\<close>), or read.
\<close>

datatype 'a disk_file = Missing | Unreadable error | Holding 'a

text \<open>Python's \<^verbatim>\<open>int(value)\<close> on a decoded JSON value.\<close>

fun py_int :: "library \<Rightarrow> json \<Rightarrow> error + int" where
  "py_int L JNull = Inl (Raised TypeError ''int'')"
| "py_int L (JBool b) = Inr (if b then 1 else 0)"
| "py_int L (JInt i) = Inr i"
| "py_int L (JFloat r) = Inr (if 0 \<le> r then \<lfloor>r\<rfloor> else \<lceil>r\<rceil>)"
| "py_int L JNaN = Inl (Raised ValueError ''int'')"
| "py_int L JInfinity = Inl (Raised OverflowError ''int'')"
| "py_int L (JStr s) =
     (case int_of_str L s of None \<Rightarrow> Inl (Raised ValueError ''int'') | Some i \<Rightarrow> Inr i)"
| "py_int L (JList vs) = Inl (Raised TypeError ''int'')"
| "py_int L (JObj kvs) = Inl (Raised TypeError ''int'')"

text \<open>
  \<^verbatim>\<open>bytes(int(value) for value in data)\<close> (line 172): the values are converted one
  after the other, and each must lie in \<^verbatim>\<open>range(256)\<close>.
\<close>

fun to_bytes :: "library \<Rightarrow> json list \<Rightarrow> error + nat list" where
  "to_bytes L [] = Inr []"
| "to_bytes L (v # vs) =
     (case py_int L v of
        Inl e \<Rightarrow> Inl e
      | Inr i \<Rightarrow>
          if 0 \<le> i \<and> i < 256
          then (case to_bytes L vs of Inl e \<Rightarrow> Inl e | Inr bs \<Rightarrow> Inr (nat i # bs))
          else Inl (Raised ValueError ''bytes''))"

text \<open>\<^verbatim>\<open>_keypair_from_bytes\<close> (lines 424 to 431).\<close>

definition keypair_from_bytes :: "library \<Rightarrow> nat list \<Rightarrow> error + keypair" where
  "keypair_from_bytes L secret_bytes =
     (if length secret_bytes = 64
      then (if keypair_accepted L secret_bytes then Inr (FromBytes secret_bytes)
            else Inl (Raised ValueError ''Keypair.from_bytes''))
      else if length secret_bytes = 32 then Inr (FromSeed secret_bytes)
      else Inl BadSecretLength)"

text \<open>
  \<^verbatim>\<open>load_wallet_from_file\<close> (lines 160 to 180). The file is given by its path and
  by its text. Line 170 catches a \<^verbatim>\<open>JSONDecodeError\<close> only; any other exception
  of \<^verbatim>\<open>json.loads\<close> leaves the function.
\<close>

definition load_wallet_from_file ::
  "library \<Rightarrow> string \<Rightarrow> str disk_file \<Rightarrow> manager \<Rightarrow> (error + str) \<times> manager"
where
  "load_wallet_from_file L path file m =
     (case file of
        Missing \<Rightarrow> (Inl (WalletFileNotFound path), m)
      | Unreadable e \<Rightarrow> (Inl e, m)
      | Holding text \<Rightarrow>
         (let raw = strip text in
          if raw = [] then (Inl (WalletFileEmpty path), m)
          else
            (case (case json_loads L raw of
                     Inl e \<Rightarrow> if class_of e = JSONDecodeError then Inr None else Inl e
                   | Inr data \<Rightarrow> Inr (Some data)) of
               Inl e \<Rightarrow> (Inl e, m)
             | Inr (Some (JList data)) \<Rightarrow>
                 (case to_bytes L data of
                    Inl e \<Rightarrow> (Inl e, m)
                  | Inr secret_bytes \<Rightarrow>
                     (case keypair_from_bytes L secret_bytes of
                        Inl e \<Rightarrow> (Inl e, m)
                      | Inr k \<Rightarrow> (Inr (pubkey_str L k), m\<lparr>wallet := Some k\<rparr>)))
             | Inr _ \<Rightarrow>
                 (case b58decode L raw of
                    None \<Rightarrow> (Inl (SecretNotReadable path), m)
                  | Some secret_bytes \<Rightarrow>
                     (case keypair_from_bytes L secret_bytes of
                        Inl e \<Rightarrow> (Inl e, m)
                      | Inr k \<Rightarrow> (Inr (pubkey_str L k), m\<lparr>wallet := Some k\<rparr>))))))"

text \<open>
  The bytes that the secret of a wallet file decodes to: the JSON array of byte values
  when the text is one, its base-58 decoding otherwise.
\<close>

definition decoded_secret :: "library \<Rightarrow> string \<Rightarrow> str disk_file \<Rightarrow> error + nat list" where
  "decoded_secret L path file =
     (case file of
        Missing \<Rightarrow> Inl (WalletFileNotFound path)
      | Unreadable e \<Rightarrow> Inl e
      | Holding text \<Rightarrow>
          if strip text = [] then Inl (WalletFileEmpty path)
          else (case json_loads L (strip text) of
                  Inr (JList data) \<Rightarrow> to_bytes L data
                | Inl e \<Rightarrow> if class_of e = JSONDecodeError
                           then (case b58decode L (strip text) of
                                   None \<Rightarrow> Inl (SecretNotReadable path)
                                 | Some bs \<Rightarrow> Inr bs)
                           else Inl e
                | Inr _ \<Rightarrow> (case b58decode L (strip text) of
                             None \<Rightarrow> Inl (SecretNotReadable path)
                           | Some bs \<Rightarrow> Inr bs)))"

text \<open>
  The texts of the examples, with what the packages make of them. Thirty-two times the
  digit 1 is the base-58 text of thirty-two zero bytes; the key pair of that seed has the
  public key \<open>zero_seed_pubkey\<close>, of the bytes \<open>zero_seed_public_bytes\<close>. The identifiers of the vote and of the stake program
  are addresses. Sixty-three times the digit 1 followed by one more digit from 1 to 9 is the
  base-58 text of a signature of 64 bytes, \<open>signature_2\<close> and \<open>signature_3\<close>
  among them.
\<close>

definition zero_seed_text :: str where
  "zero_seed_text = lit ''11111111111111111111111111111111''"

definition zero_seed_pubkey :: str where
  "zero_seed_pubkey = lit ''4zvwRjXUKGfvwnParsHAS3HuSVzV5cA4McphgmoCtajS''"

definition zero_seed_public_bytes :: "nat list" where
  "zero_seed_public_bytes =
     [59, 106, 39, 188, 206, 182, 164, 45, 98, 163, 168, 208, 42, 111, 13, 115,
      101, 50, 21, 119, 29, 226, 67, 166, 58, 192, 72, 161, 139, 89, 218, 41]"

definition vote_program :: str where
  "vote_program = lit ''Vote111111111111111111111111111111111111111''"

definition stake_program :: str where
  "stake_program = lit ''Stake11111111111111111111111111111111111111''"

definition signature_2 :: str where
  "signature_2 = replicate 63 49 @ [50]"

definition signature_3 :: str where
  "signature_3 = replicate 63 49 @ [51]"

text \<open>
  A library for the examples. It knows the JSON text of three bytes and takes every
  other text for no JSON; it knows the base-58 text of the zero seed, its key pair, the
  three addresses above, the decimals \<open>1\<close>, \<open>2\<close>, \<open>0.5\<close> and \<open>0.0000000001\<close>, and the
  nine signatures.
\<close>

definition example_library :: library where
  "example_library =
     \<lparr>json_loads = (\<lambda>s. if s = lit ''[7, 7, 7]'' then Inr (JList [JInt 7, JInt 7, JInt 7])
                         else Inl (Raised JSONDecodeError ''json.loads'')),
      int_of_str = (\<lambda>s. if s = lit ''7'' then Some 7 else None),
      b58decode = (\<lambda>s. if s = zero_seed_text then Some (replicate 32 0) else None),
      keypair_accepted = (\<lambda>bs. bs = replicate 32 0 @ zero_seed_public_bytes),
      pubkey_str = (\<lambda>k. if k = FromSeed (replicate 32 0) \<or>
                             k = FromBytes (replicate 32 0 @ zero_seed_public_bytes)
                          then zero_seed_pubkey else []),
      pubkey_accepted = (\<lambda>s. s = vote_program \<or> s = stake_program \<or> s = zero_seed_pubkey),
      decimal_of_str =
        (\<lambda>s. if s = lit ''1'' then Some (Dec 1 0)
             else if s = lit ''2'' then Some (Dec 2 0)
             else if s = lit ''0.5'' then Some (Dec 5 (- 1))
             else if s = lit ''0.0000000001'' then Some (Dec 1 (- 10))
             else None),
      signature_accepted =
        (\<lambda>s. length s = 64 \<and> take 63 s = replicate 63 49 \<and> 49 \<le> s ! 63 \<and> s ! 63 \<le> 57)\<rparr>"

section \<open>The transport and the clock\<close>

text \<open>
  The instructions of a transaction (\<^verbatim>\<open>set_compute_unit_limit\<close>,
  \<^verbatim>\<open>set_compute_unit_price\<close>, \<^verbatim>\<open>transfer\<close> with payer, recipient and lamports)
  and the transaction that \<^verbatim>\<open>Transaction.new_signed_with_payer\<close> builds.
\<close>

datatype instruction =
  SetComputeUnitLimit int | SetComputeUnitPrice int | Transfer str str int

record transaction =
  tx_instructions :: "instruction list"
  tx_payer :: str
  tx_signers :: "keypair list"
  tx_blockhash :: str

text \<open>
  The calls that the manager makes on its transport client, with their arguments, a
  commitment being the \<^verbatim>\<open>str\<close> it is.
\<close>

datatype request =
    GetLatestBlockhash str
  | SendTransaction transaction bool str
  | GetSignatureStatuses "str list"
  | GetMultipleAccounts "str list" str

text \<open>
  What the client answers. To \<^verbatim>\<open>get_latest_blockhash\<close>, the text of
  \<^verbatim>\<open>response.value.blockhash\<close>. To \<^verbatim>\<open>send_transaction\<close>, one of the shapes
  that \<^verbatim>\<open>_extract_signature\<close> tells apart: a \<^verbatim>\<open>Signature\<close>, a response whose
  \<^verbatim>\<open>value\<close> is a \<^verbatim>\<open>Signature\<close>, one whose \<^verbatim>\<open>value\<close> is a
  \<^verbatim>\<open>str\<close>, anything else. To \<^verbatim>\<open>get_signature_statuses\<close>, the list
  \<^verbatim>\<open>response.value\<close>. To \<^verbatim>\<open>get_multiple_accounts\<close>, the list
  \<^verbatim>\<open>response.value\<close>, an account being known by its lamports.
\<close>

datatype sent = BareSignature str | ValueSignature str | ValueString str | ValueOther

datatype reply =
    Blockhash str
  | Sent sent
  | Statuses "tx_status option list"
  | Accounts "nat option list"

text \<open>
  What the manager does to the outside: a call on a client, with the answer or the
  exception it ended in, and a \<^verbatim>\<open>time.sleep\<close>. The world is the clock that
  \<^verbatim>\<open>time.time()\<close> reads and the history of these events.
\<close>

datatype event = Call client request "error + reply" | Sleep real

record world =
  now :: real
  events :: "event list"

text \<open>
  A remote procedure of the transport client: from the world and the client to the value
  returned or the exception raised, and the milliseconds the call took. \<open>call\<close> is the
  \<^verbatim>\<open>lambda client: client.get_latest_blockhash(...)\<close> (or another procedure) that
  the manager hands to \<^verbatim>\<open>_perform\<close>; \<open>wrap\<close> says which kind of answer the
  procedure gives.
\<close>

type_synonym 'a rpc = "world \<Rightarrow> client \<Rightarrow> (error + 'a) \<times> nat"

definition call ::
  "('a \<Rightarrow> reply) \<Rightarrow> 'a rpc \<Rightarrow> request \<Rightarrow> client \<Rightarrow> world \<Rightarrow> (error + 'a) \<times> world"
where
  "call wrap rpc req c w =
     (case rpc w c of
        (r, ms) \<Rightarrow>
          (r, w\<lparr>now := now w + real ms / 1000,
                events := events w @
                  [Call c req (case r of Inl e \<Rightarrow> Inl e | Inr v \<Rightarrow> Inr (wrap v))]\<rparr>))"

text \<open>
  \<^verbatim>\<open>time.sleep\<close>. The length is converted to a number of nanoseconds that must fit
  64 bits, or the call raises \<^verbatim>\<open>OverflowError\<close>; a negative length raises
  \<^verbatim>\<open>ValueError\<close>.
\<close>

definition time_sleep :: "real \<Rightarrow> world \<Rightarrow> error + world" where
  "time_sleep d w =
     (if d * 1000000000 < - 9223372036854775808 \<or> 9223372036854775807 < d * 1000000000
      then Inl (Raised OverflowError ''time.sleep'')
      else if d < 0 then Inl (Raised ValueError ''time.sleep'')
      else Inr (w\<lparr>now := now w + d, events := events w @ [Sleep d]\<rparr>))"

section \<open>The retry loop\<close>

text \<open>\<^verbatim>\<open>_rotate_endpoint\<close> (lines 138 to 143).\<close>

definition rotate_endpoint :: "manager \<Rightarrow> manager" where
  "rotate_endpoint m =
     (if length (rpc_endpoints m) \<le> 1 then m
      else
        (let m1 = m\<lparr>current_endpoint_index :=
                      (current_endpoint_index m + 1) mod length (rpc_endpoints m)\<rparr>;
             m2 = m1\<lparr>endpoint := rpc_endpoints m1 ! current_endpoint_index m1\<rparr>
         in m2\<lparr>client := \<lparr>client_endpoint = endpoint m2, client_timeout = timeout m2\<rparr>\<rparr>))"

text \<open>
  The \<^verbatim>\<open>while\<close> loop of \<^verbatim>\<open>_perform\<close> (lines 125 to 136), with the local
  variables \<^verbatim>\<open>attempts\<close>, \<^verbatim>\<open>total_endpoints\<close>, \<^verbatim>\<open>max_attempts\<close> and
  \<^verbatim>\<open>last_error\<close>. An exception of \<^verbatim>\<open>time.sleep\<close> is raised inside the
  handler and leaves the loop.
\<close>

function perform_loop ::
  "(client \<Rightarrow> world \<Rightarrow> (error + 'a) \<times> world) \<Rightarrow> int \<Rightarrow> int \<Rightarrow> int \<Rightarrow> error option \<Rightarrow>
   manager \<Rightarrow> world \<Rightarrow> (error + 'a) \<times> manager \<times> world"
where
  "perform_loop func attempts total_endpoints max_attempts last_error m w =
     (if attempts < max_attempts then
        (case func (client m) w of
           (Inr v, w1) \<Rightarrow> (Inr v, m, w1)
         | (Inl exc, w1) \<Rightarrow>
             (case time_sleep (retry_backoff_seconds m * real_of_int (min (attempts + 1) 4)) w1 of
                Inl e \<Rightarrow> (Inl e, m, w1)
              | Inr w2 \<Rightarrow>
                  perform_loop func (attempts + 1) total_endpoints max_attempts (Some exc)
                    (if total_endpoints > 1 \<and> (attempts + 1) mod max_retries_per_endpoint m = 0
                     then rotate_endpoint m else m)
                    w2))
      else (Inl (RetriesExhausted max_attempts (rpc_endpoints m) last_error), m, w))"
  by pat_completeness auto
termination
  by (relation "measure (\<lambda>(func, attempts, total_endpoints, max_attempts, last_error, m, w).
                  nat (max_attempts - attempts))") auto

text \<open>\<^verbatim>\<open>_perform\<close> (lines 120 to 136).\<close>

definition perform ::
  "(client \<Rightarrow> world \<Rightarrow> (error + 'a) \<times> world) \<Rightarrow> manager \<Rightarrow> world \<Rightarrow> (error + 'a) \<times> manager \<times> world"
where
  "perform func m w =
     (let total_endpoints = int (length (rpc_endpoints m));
          max_attempts = total_endpoints * max_retries_per_endpoint m
      in perform_loop func 0 total_endpoints max_attempts None m w)"

text \<open>
  What the constructor and \<^verbatim>\<open>set_rpc_pool\<close> establish and
  \<^verbatim>\<open>_rotate_endpoint\<close> keeps: a pool that is not empty, an active index inside it,
  the active endpoint and a client built for it, at least one try for each endpoint, and
  a back-off that is not negative.
\<close>

definition pool_ready :: "manager \<Rightarrow> bool" where
  "pool_ready m =
     (rpc_endpoints m \<noteq> [] \<and>
      current_endpoint_index m < length (rpc_endpoints m) \<and>
      endpoint m = rpc_endpoints m ! current_endpoint_index m \<and>
      client m = \<lparr>client_endpoint = endpoint m, client_timeout = timeout m\<rparr> \<and>
      1 \<le> max_retries_per_endpoint m \<and>
      0 \<le> retry_backoff_seconds m)"

text \<open>
  The longest sleep that \<^verbatim>\<open>_perform\<close> asks for when it makes \<open>n\<close> attempts, and
  whether \<^verbatim>\<open>time.sleep\<close> takes it: its nanoseconds fit 64 bits.
\<close>

definition longest_sleep :: "manager \<Rightarrow> nat \<Rightarrow> real" where
  "longest_sleep m n = retry_backoff_seconds m * real (min n 4)"

definition sleep_fits :: "real \<Rightarrow> bool" where
  "sleep_fits d = (d * 1000000000 \<le> 9223372036854775807)"

text \<open>The client of the endpoint \<open>j\<close> places after the active one, wrapping around.\<close>

definition client_at :: "manager \<Rightarrow> nat \<Rightarrow> client" where
  "client_at m j =
     \<lparr>client_endpoint =
        rpc_endpoints m ! ((current_endpoint_index m + j) mod length (rpc_endpoints m)),
      client_timeout = timeout m\<rparr>"

text \<open>
  The manager after \<open>j\<close> rotations: what \<open>j\<close> calls of \<^verbatim>\<open>_rotate_endpoint\<close>
  make of a pool of more than one endpoint.
\<close>

definition rotated :: "manager \<Rightarrow> nat \<Rightarrow> manager" where
  "rotated m j =
     m\<lparr>current_endpoint_index := (current_endpoint_index m + j) mod length (rpc_endpoints m),
       endpoint := rpc_endpoints m ! ((current_endpoint_index m + j) mod length (rpc_endpoints m)),
       client := client_at m j\<rparr>"

text \<open>
  What one failed attempt of \<^verbatim>\<open>_perform\<close> does to the outside, as lines 127 and
  131 write it: attempt \<open>k\<close> (counted from 1) calls the client of the endpoint
  \<open>(k - 1) div R\<close> places after the starting one, \<open>R\<close> being
  \<^verbatim>\<open>max_retries_per_endpoint\<close>, and then sleeps
  \<^verbatim>\<open>retry_backoff_seconds * min(k, 4)\<close>.
\<close>

definition attempt_events :: "manager \<Rightarrow> request \<Rightarrow> nat \<Rightarrow> error \<Rightarrow> event list" where
  "attempt_events m req k e =
     [Call (client_at m ((k - 1) div nat (max_retries_per_endpoint m))) req (Inl e),
      Sleep (retry_backoff_seconds m * real (min k 4))]"

text \<open>A pool of two endpoints with two tries each, and a remote procedure that always raises.\<close>

definition two_endpoints :: manager where
  "two_endpoints = default_manager\<lparr>rpc_endpoints := [DEVNET_RPC_URL, ANKR_DEVNET_RPC],
      max_retries_per_endpoint := 2\<rparr>"

definition always_down :: "str rpc" where
  "always_down w c = (Inl (Raised OtherException ''down''), 0)"

text \<open>The constructor's manager with a back-off of ten thousand million seconds.\<close>

definition long_backoff :: manager where
  "long_backoff = default_manager\<lparr>retry_backoff_seconds := 10000000000\<rparr>"

section \<open>Recipients\<close>

record recipient =
  address :: str
  lamports :: int

definition LAMPORTS_PER_SOL :: nat where
  "LAMPORTS_PER_SOL = 1000000000"

text \<open>
  The arithmetic of \<^verbatim>\<open>decimal\<close> under its default context, as far as lines
  376 and 438 need it: the number of digits of a coefficient, rounding half-even when the
  last \<open>p\<close> digits are dropped, and the rounding of a result to the 28 digits of
  the context, where a coefficient that the rounding carries to 29 digits loses its last
  zero.
\<close>

fun digits :: "nat \<Rightarrow> nat" where
  "digits n = (if n < 10 then 1 else Suc (digits (n div 10)))"

definition round_half_even :: "nat \<Rightarrow> nat \<Rightarrow> nat" where
  "round_half_even c p =
     (let q = c div 10 ^ p; r = c mod 10 ^ p
      in if 10 ^ p < 2 * r \<or> (2 * r = 10 ^ p \<and> odd q) then q + 1 else q)"

definition context_round :: "nat \<Rightarrow> int \<Rightarrow> nat \<times> int" where
  "context_round c e =
     (if digits c \<le> 28 then (c, e)
      else
        (let p = digits c - 28; q = round_half_even c p
         in if 28 < digits q then (q div 10, e + int p + 1) else (q, e + int p)))"

text \<open>
  \<^verbatim>\<open>_sol_to_lamports\<close> (lines 433 to 441) on a \<^verbatim>\<open>Decimal\<close>. The comparison of
  a NaN, a product beyond the largest exponent of the context (999999) and the
  \<^verbatim>\<open>int\<close> of an infinity raise exceptions of \<^verbatim>\<open>decimal\<close> and
  \<^verbatim>\<open>OverflowError\<close>, none of them a \<^verbatim>\<open>ValueError\<close>.
\<close>

definition sol_to_lamports :: "decimal \<Rightarrow> error + int" where
  "sol_to_lamports amount_sol =
     (case amount_sol of
        DecNaN \<Rightarrow> Inl (Raised OtherException ''decimal.InvalidOperation'')
      | DecInf positive \<Rightarrow>
          if \<not> positive then Inl AmountNotPositive
          else Inl (Raised OverflowError ''int'')
      | Dec c e \<Rightarrow>
          if c \<le> 0 then Inl AmountNotPositive
          else
            (case context_round (nat c * LAMPORTS_PER_SOL) e of
               (c', e') \<Rightarrow>
                 if 999999 < e' + int (digits c') - 1
                 then Inl (Raised OtherException ''decimal.Overflow'')
                 else
                   (let lamports = (if 0 \<le> e' then int c' * 10 ^ nat e'
                                    else int c' div 10 ^ nat (- e'))
                    in if lamports \<le> 0 then Inl AmountTooSmall else Inr lamports)))"

text \<open>
  \<^verbatim>\<open>line.lstrip("\ufeff")\<close>: the byte-order mark, the code point U+FEFF, is
  taken off the front as often as it stands there.
\<close>

definition BOM :: nat where
  "BOM = 65279"

definition lstrip_bom :: "str \<Rightarrow> str" where
  "lstrip_bom s = dropWhile (\<lambda>c. c = BOM) s"

text \<open>
  \<^verbatim>\<open>[token for token in re.split(r"[\s,;]+", line) if token]\<close> (line 388): the line
  is cut at its white space, commas and semicolons, and the empty pieces are dropped.
  \<open>current\<close> is the piece being read.
\<close>

definition is_separator :: "nat \<Rightarrow> bool" where
  "is_separator c = (is_space c \<or> c = of_char CHR '','' \<or> c = of_char CHR '';'')"

fun split_tokens :: "str \<Rightarrow> str \<Rightarrow> str list" where
  "split_tokens [] current = (if current = [] then [] else [current])"
| "split_tokens (c # cs) current =
     (if is_separator c
      then (if current = [] then split_tokens cs [] else current # split_tokens cs [])
      else split_tokens cs (current @ [c]))"

text \<open>\<^verbatim>\<open>_parse_recipient_line\<close> (lines 382 to 417).\<close>

definition parse_recipient_line ::
  "library \<Rightarrow> str \<Rightarrow> nat \<Rightarrow> decimal option \<Rightarrow> error + recipient"
where
  "parse_recipient_line L line line_number default_amount_sol =
     (case split_tokens line [] of
        [] \<Rightarrow> Inl (LineEmpty line_number)
      | addr # rest_tokens \<Rightarrow>
          if \<not> pubkey_accepted L addr then Inl (InvalidAddress line_number addr)
          else
            (case (case rest_tokens of
                     amount_text # others \<Rightarrow>
                       (case decimal_of_str L amount_text of
                          None \<Rightarrow> Inl (InvalidAmount line_number amount_text)
                        | Some amount_sol \<Rightarrow> Inr amount_sol)
                   | [] \<Rightarrow>
                       (case default_amount_sol of
                          None \<Rightarrow> Inl (NoAmount line_number)
                        | Some amount_sol \<Rightarrow> Inr amount_sol)) of
               Inl e \<Rightarrow> Inl e
             | Inr amount_sol \<Rightarrow>
                 (case sol_to_lamports amount_sol of
                    Inl e \<Rightarrow> Inl e
                  | Inr n \<Rightarrow> Inr \<lparr>address = addr, lamports = n\<rparr>)))"

text \<open>
  The first loop of \<^verbatim>\<open>read_recipients_from_file\<close> (lines 261 to 271), with the
  line number and the two lists it fills. Only a \<^verbatim>\<open>RecipientParseError\<close> is
  caught; any other exception leaves the loop and the function.
\<close>

fun parse_lines ::
  "library \<Rightarrow> decimal option \<Rightarrow> nat \<Rightarrow> str list \<Rightarrow> recipient list \<Rightarrow> warning list \<Rightarrow>
   error + recipient list \<times> warning list"
where
  "parse_lines L default_amount_sol line_number [] recipients_raw warnings =
     Inr (recipients_raw, warnings)"
| "parse_lines L default_amount_sol line_number (raw_line # rest) recipients_raw warnings =
     (let line = lstrip_bom (strip raw_line) in
      if line = [] \<or> hd line = of_char CHR ''#''
      then parse_lines L default_amount_sol (line_number + 1) rest recipients_raw warnings
      else
        (case parse_recipient_line L line line_number default_amount_sol of
           Inl exc \<Rightarrow>
             if class_of exc = RecipientParseError
             then parse_lines L default_amount_sol (line_number + 1) rest recipients_raw
                    (warnings @ [LineWarning exc])
             else Inl exc
         | Inr r \<Rightarrow>
             parse_lines L default_amount_sol (line_number + 1) rest (recipients_raw @ [r])
               warnings))"

text \<open>
  A Python \<^verbatim>\<open>dict\<close> keeps its keys in the order of their first insertion: it is a
  list of pairs. \<open>dict_set\<close> is \<^verbatim>\<open>d[k] = v\<close>.
\<close>

fun dict_set :: "'k \<Rightarrow> 'v \<Rightarrow> ('k \<times> 'v) list \<Rightarrow> ('k \<times> 'v) list" where
  "dict_set k v [] = [(k, v)]"
| "dict_set k v (p # ps) = (if fst p = k then (k, v) # ps else p # dict_set k v ps)"

text \<open>
  The second loop (lines 274 to 280), with the dictionaries \<^verbatim>\<open>aggregated\<close> and
  \<^verbatim>\<open>duplicates_counter\<close>.
\<close>

fun aggregate ::
  "recipient list \<Rightarrow> (str \<times> recipient) list \<Rightarrow> (str \<times> nat) list \<Rightarrow>
   (str \<times> recipient) list \<times> (str \<times> nat) list"
where
  "aggregate [] aggregated duplicates_counter = (aggregated, duplicates_counter)"
| "aggregate (r # rs) aggregated duplicates_counter =
     (case map_of aggregated (address r) of
        Some aggregated_rec \<Rightarrow>
          aggregate rs
            (dict_set (address r) (aggregated_rec\<lparr>lamports := lamports aggregated_rec + lamports r\<rparr>)
               aggregated)
            (dict_set (address r)
               ((case map_of duplicates_counter (address r) of None \<Rightarrow> 0 | Some n \<Rightarrow> n) + 1)
               duplicates_counter)
      | None \<Rightarrow>
          aggregate rs
            (dict_set (address r) \<lparr>address = address r, lamports = lamports r\<rparr> aggregated)
            duplicates_counter)"

text \<open>
  \<^verbatim>\<open>read_recipients_from_file\<close> (lines 250 to 293). The file is given by its path
  and by the lines of its text, as \<^verbatim>\<open>splitlines\<close> cuts it.
\<close>

definition read_recipients_from_file ::
  "library \<Rightarrow> string \<Rightarrow> str list disk_file \<Rightarrow> decimal option \<Rightarrow> manager \<Rightarrow>
   (error + recipient list) \<times> manager"
where
  "read_recipients_from_file L path file default_amount_sol m =
     (case file of
        Missing \<Rightarrow> (Inl (RecipientFileNotFound path), m)
      | Unreadable e \<Rightarrow> (Inl e, m)
      | Holding raw_lines \<Rightarrow>
         (case parse_lines L default_amount_sol 1 raw_lines [] [] of
            Inl e \<Rightarrow> (Inl e, m)
          | Inr (recipients_raw, line_warnings) \<Rightarrow>
             (case aggregate recipients_raw [] [] of
                (aggregated, duplicates_counter) \<Rightarrow>
                  (let warnings = line_warnings @
                         map (\<lambda>(a, count). DuplicateWarning a (count + 1)) duplicates_counter;
                       recipients = map snd aggregated;
                       m' = m\<lparr>last_recipient_warnings := warnings\<rparr>
                   in if recipients = []
                      then (if warnings \<noteq> [] then (Inl NoValidRecipients, m')
                            else (Inl NoRecipientLines, m'))
                      else (Inr recipients, m')))))"

text \<open>\<^verbatim>\<open>sum_lamports\<close> (lines 487 to 488).\<close>

definition sum_lamports :: "recipient list \<Rightarrow> int" where
  "sum_lamports recipients = sum_list (map lamports recipients)"

text \<open>
  The elements of a list in the order of their first occurrence, those of \<open>seen\<close> left
  out.
\<close>

fun first_seen :: "'a set \<Rightarrow> 'a list \<Rightarrow> 'a list" where
  "first_seen seen [] = []"
| "first_seen seen (x # xs) =
     (if x \<in> seen then first_seen seen xs else x # first_seen (insert x seen) xs)"

text \<open>The lamports that a list of recipients holds for one address.\<close>

definition total_for :: "str \<Rightarrow> recipient list \<Rightarrow> int" where
  "total_for a rs = sum_list (map lamports (filter (\<lambda>r. address r = a) rs))"

text \<open>The lamports held by the values of the dictionary \<^verbatim>\<open>aggregated\<close>.\<close>

definition sum_dict :: "(str \<times> recipient) list \<Rightarrow> int" where
  "sum_dict d = sum_list (map (\<lambda>p. lamports (snd p)) d)"

section \<open>Waiting for a confirmation\<close>

text \<open>
  The transport client: the four remote procedures that the manager calls, each with the
  arguments it is given.
\<close>

record transport =
  get_latest_blockhash :: "str \<Rightarrow> str rpc"
  send_transaction :: "transaction \<Rightarrow> bool \<Rightarrow> str \<Rightarrow> sent rpc"
  get_signature_statuses :: "str list \<Rightarrow> tx_status option list rpc"
  get_multiple_accounts :: "str list \<Rightarrow> str \<Rightarrow> nat option list rpc"

text \<open>
  The four functions that the manager hands to \<^verbatim>\<open>_perform\<close> (lines 331, 341, 453
  and 370).
\<close>

definition latest_blockhash ::
  "transport \<Rightarrow> str \<Rightarrow> client \<Rightarrow> world \<Rightarrow> (error + str) \<times> world" where
  "latest_blockhash T commitment =
     call Blockhash (get_latest_blockhash T commitment) (GetLatestBlockhash commitment)"

definition submit ::
  "transport \<Rightarrow> transaction \<Rightarrow> bool \<Rightarrow> str \<Rightarrow> client \<Rightarrow> world \<Rightarrow> (error + sent) \<times> world" where
  "submit T tx skip_preflight commitment =
     call Sent (send_transaction T tx skip_preflight commitment)
       (SendTransaction tx skip_preflight commitment)"

definition signature_statuses ::
  "transport \<Rightarrow> str list \<Rightarrow> client \<Rightarrow> world \<Rightarrow> (error + tx_status option list) \<times> world" where
  "signature_statuses T signatures =
     call Statuses (get_signature_statuses T signatures) (GetSignatureStatuses signatures)"

definition multiple_accounts ::
  "transport \<Rightarrow> str list \<Rightarrow> str \<Rightarrow> client \<Rightarrow> world \<Rightarrow> (error + nat option list) \<times> world" where
  "multiple_accounts T pubkeys commitment =
     call Accounts (get_multiple_accounts T pubkeys commitment)
       (GetMultipleAccounts pubkeys commitment)"

text \<open>
  \<^verbatim>\<open>str.lower()\<close> on the letters of ASCII. It decides
  \<^verbatim>\<open>str(confirmation_status).lower() in {"confirmed", "finalized"}\<close> as
  \<^verbatim>\<open>str.lower\<close> does: the one code point outside ASCII that lowers to a letter of
  ASCII is the Kelvin sign, which lowers to k, and neither word has a k.
\<close>

definition lower_ascii :: "str \<Rightarrow> str" where
  "lower_ascii s = map (\<lambda>c. if 65 \<le> c \<and> c \<le> 90 then c + 32 else c) s"

text \<open>Line 461: the test on the named level of a status.\<close>

definition level_confirms :: "tx_status \<Rightarrow> bool" where
  "level_confirms status =
     (case confirmation_status status of
        None \<Rightarrow> False
      | Some level \<Rightarrow> lower_ascii level = lit ''confirmed'' \<or> lower_ascii level = lit ''finalized'')"

text \<open>Line 464: the test on the number of confirmations.\<close>

definition count_confirms :: "tx_status \<Rightarrow> bool" where
  "count_confirms status =
     (case confirmations status of None \<Rightarrow> False | Some n \<Rightarrow> 0 < n)"

text \<open>
  A function handed to \<^verbatim>\<open>_perform\<close> takes time and no more: it never sets the
  clock back. \<open>call\<close> builds such functions only.
\<close>

definition takes_time :: "(client \<Rightarrow> world \<Rightarrow> (error + 'a) \<times> world) \<Rightarrow> bool" where
  "takes_time func = (\<forall>c w. now w \<le> now (snd (func c w)))"

text \<open>
  The \<^verbatim>\<open>while\<close> loop of \<^verbatim>\<open>_await_confirmation\<close> (lines 452 to 467), with
  the local variables \<^verbatim>\<open>deadline\<close> and \<^verbatim>\<open>last_status\<close>. The loop reads the
  clock, asks for the status of the one signature and takes the first element of the
  answer; nothing in it reads the commitment.
\<close>

function await_loop ::
  "transport \<Rightarrow> str \<Rightarrow> real \<Rightarrow> real \<Rightarrow> tx_status option \<Rightarrow> manager \<Rightarrow> world \<Rightarrow>
   (error + unit) \<times> manager \<times> world"
where
  "await_loop T signature deadline timeout_seconds last_status m w =
     (if now w < deadline then
        (case perform (signature_statuses T [signature]) m w of
           (Inl e, m1, w1) \<Rightarrow> (Inl e, m1, w1)
         | (Inr response_value, m1, w1) \<Rightarrow>
            (case response_value of
               [] \<Rightarrow> (Inl (Raised IndexError ''response.value[0]''), m1, w1)
             | None # others \<Rightarrow>
                 (case time_sleep (4 / 5) w1 of
                    Inl e \<Rightarrow> (Inl e, m1, w1)
                  | Inr w2 \<Rightarrow>
                      await_loop T signature deadline timeout_seconds last_status m1 w2)
             | Some status # others \<Rightarrow>
                 (case err status of
                    Some failure \<Rightarrow> (Inl (TransactionFailed signature failure), m1, w1)
                  | None \<Rightarrow>
                      if level_confirms status then (Inr (), m1, w1)
                      else if count_confirms status then (Inr (), m1, w1)
                      else
                        (case time_sleep (4 / 5) w1 of
                           Inl e \<Rightarrow> (Inl e, m1, w1)
                         | Inr w2 \<Rightarrow>
                             await_loop T signature deadline timeout_seconds (Some status)
                               m1 w2))))
      else (Inl (NotConfirmed signature timeout_seconds last_status), m, w))"
  by pat_completeness auto

text \<open>
  \<^verbatim>\<open>_await_confirmation\<close> (lines 443 to 470). The parameter
  \<^verbatim>\<open>commitment\<close> is there, and the body does not use it.
\<close>

definition await_confirmation ::
  "library \<Rightarrow> transport \<Rightarrow> str \<Rightarrow> real \<Rightarrow> str \<Rightarrow> manager \<Rightarrow> world \<Rightarrow>
   (error + unit) \<times> manager \<times> world"
where
  "await_confirmation L T signature timeout_seconds commitment m w =
     (let deadline = now w + timeout_seconds in
      if \<not> signature_accepted L signature
      then (Inl (Raised ValueError ''Signature.from_string''), m, w)
      else await_loop T signature deadline timeout_seconds None m w)"

text \<open>
  A ledger for the examples of the confirmation: every signature is reported with no
  error, at the level \<open>confirmed\<close> and with no count (\<open>confirmed_ledger\<close>), or at the
  level \<open>processed\<close> with one confirmation (\<open>processed_ledger\<close>). Every call takes a
  tenth of a second.
\<close>

definition confirmed_ledger :: transport where
  "confirmed_ledger =
     \<lparr>get_latest_blockhash = (\<lambda>commitment w c. (Inl (Raised OtherException ''unused''), 100)),
      send_transaction = (\<lambda>tx skip commitment w c. (Inl (Raised OtherException ''unused''), 100)),
      get_signature_statuses =
        (\<lambda>signatures w c.
           (Inr (map (\<lambda>s. Some \<lparr>err = None, confirmation_status = Some (lit ''confirmed''),
                                  confirmations = None\<rparr>) signatures), 100)),
      get_multiple_accounts = (\<lambda>pubkeys commitment w c. (Inl (Raised OtherException ''unused''), 100))\<rparr>"

definition processed_ledger :: transport where
  "processed_ledger =
     confirmed_ledger\<lparr>get_signature_statuses :=
        (\<lambda>signatures w c.
           (Inr (map (\<lambda>s. Some \<lparr>err = None, confirmation_status = Some (lit ''processed''),
                                  confirmations = Some 1\<rparr>) signatures), 100))\<rparr>"

section \<open>Sending the payments\<close>

text \<open>\<^verbatim>\<open>_extract_signature\<close> (lines 472 to 481).\<close>

fun extract_signature :: "sent \<Rightarrow> error + str" where
  "extract_signature (BareSignature s) = Inr s"
| "extract_signature (ValueSignature s) = Inr s"
| "extract_signature (ValueString s) = Inr s"
| "extract_signature ValueOther = Inl NoSignatureInResponse"

text \<open>
  \<^verbatim>\<open>_chunk\<close> (lines 483 to 485): the slices
  \<^verbatim>\<open>items[index : index + size]\<close> for \<^verbatim>\<open>index\<close> in
  \<^verbatim>\<open>range(0, len(items), size)\<close>. \<open>chunk_from\<close> is the loop from one index on,
  for a positive size; \<^verbatim>\<open>range\<close> raises \<^verbatim>\<open>ValueError\<close> on the step 0 and
  is empty for a negative one.
\<close>

function chunk_from :: "'a list \<Rightarrow> nat \<Rightarrow> nat \<Rightarrow> 'a list list" where
  "chunk_from items chunk_size index =
     (if index < length items \<and> 0 < chunk_size
      then take chunk_size (drop index items) # chunk_from items chunk_size (index + chunk_size)
      else [])"
  by pat_completeness auto
termination
  by (relation "measure (\<lambda>(items, chunk_size, index). length items - index)") auto

definition chunk :: "'a list \<Rightarrow> int \<Rightarrow> error + 'a list list" where
  "chunk items chunk_size =
     (if chunk_size = 0 then Inl (Raised ValueError ''range'')
      else if chunk_size < 0 then Inr []
      else Inr (chunk_from items (nat chunk_size) 0))"

text \<open>
  Lines 310 to 320: the instructions of the compute budget. The limit is an unsigned
  number of 32 bits and the price one of 64 bits; a value outside makes the constructor of
  the instruction raise \<^verbatim>\<open>OverflowError\<close>.
\<close>

definition compute_budget :: "int option \<Rightarrow> int option \<Rightarrow> error + instruction list" where
  "compute_budget limit_value price_value =
     (case (case limit_value of
              None \<Rightarrow> Inr []
            | Some l \<Rightarrow> if 0 \<le> l \<and> l < 4294967296 then Inr [SetComputeUnitLimit l]
                        else Inl (Raised OverflowError ''set_compute_unit_limit'')) of
        Inl e \<Rightarrow> Inl e
      | Inr instructions \<Rightarrow>
          (case price_value of
             None \<Rightarrow> Inr instructions
           | Some p \<Rightarrow> if 0 \<le> p \<and> p < 18446744073709551616
                       then Inr (instructions @ [SetComputeUnitPrice p])
                       else Inl (Raised OverflowError ''set_compute_unit_price'')))"

text \<open>
  Lines 321 to 329: one transfer for every recipient of the chunk, in its order. The
  address must be one that \<^verbatim>\<open>Pubkey.from_string\<close> accepts, and the lamports an
  unsigned number of 64 bits.
\<close>

fun transfers :: "library \<Rightarrow> str \<Rightarrow> recipient list \<Rightarrow> instruction list \<Rightarrow> error + instruction list"
where
  "transfers L payer [] instructions = Inr instructions"
| "transfers L payer (r # rs) instructions =
     (if \<not> pubkey_accepted L (address r) then Inl (Raised ValueError ''Pubkey.from_string'')
      else if lamports r < 0 \<or> 18446744073709551616 \<le> lamports r
      then Inl (Raised OverflowError ''transfer'')
      else transfers L payer rs (instructions @ [Transfer payer (address r) (lamports r)]))"

text \<open>
  The body of the loop of \<^verbatim>\<open>send_mass_payments\<close> (lines 310 to 347) for one chunk:
  the instructions, a blockhash asked of the ledger, the transaction signed with it, its
  submission, the signature of the answer and the wait for its confirmation, with the
  time-out that \<^verbatim>\<open>_await_confirmation\<close> has by default.
\<close>

definition send_chunk ::
  "library \<Rightarrow> transport \<Rightarrow> keypair \<Rightarrow> bool \<Rightarrow> str \<Rightarrow> int option \<Rightarrow> int option \<Rightarrow>
   recipient list \<Rightarrow> manager \<Rightarrow> world \<Rightarrow> (error + str) \<times> manager \<times> world"
where
  "send_chunk L T wallet_key skip_preflight commitment compute_unit_limit
              compute_unit_price_micro_lamports chunk_items m w =
     (let limit_value = (case compute_unit_limit of
                           Some l \<Rightarrow> Some l | None \<Rightarrow> default_compute_unit_limit m);
          price_value = (case compute_unit_price_micro_lamports of
                           Some p \<Rightarrow> Some p | None \<Rightarrow> default_compute_unit_price m)
      in case compute_budget limit_value price_value of
           Inl e \<Rightarrow> (Inl e, m, w)
         | Inr budget \<Rightarrow>
            (case transfers L (pubkey_str L wallet_key) chunk_items budget of
               Inl e \<Rightarrow> (Inl e, m, w)
             | Inr instructions \<Rightarrow>
                (case perform (latest_blockhash T commitment) m w of
                   (Inl e, m1, w1) \<Rightarrow> (Inl e, m1, w1)
                 | (Inr blockhash, m1, w1) \<Rightarrow>
                    (let tx = \<lparr>tx_instructions = instructions,
                               tx_payer = pubkey_str L wallet_key,
                               tx_signers = [wallet_key],
                               tx_blockhash = blockhash\<rparr>
                     in case perform (submit T tx skip_preflight commitment) m1 w1 of
                          (Inl e, m2, w2) \<Rightarrow> (Inl e, m2, w2)
                        | (Inr response, m2, w2) \<Rightarrow>
                           (case extract_signature response of
                              Inl e \<Rightarrow> (Inl e, m2, w2)
                            | Inr signature \<Rightarrow>
                               (case await_confirmation L T signature 60 commitment m2 w2 of
                                  (Inl e, m3, w3) \<Rightarrow> (Inl e, m3, w3)
                                | (Inr u, m3, w3) \<Rightarrow> (Inr signature, m3, w3)))))))"

text \<open>The loop of line 309 over the chunks, with the list \<^verbatim>\<open>signatures\<close>.\<close>

fun send_chunks ::
  "library \<Rightarrow> transport \<Rightarrow> keypair \<Rightarrow> bool \<Rightarrow> str \<Rightarrow> int option \<Rightarrow> int option \<Rightarrow>
   recipient list list \<Rightarrow> str list \<Rightarrow> manager \<Rightarrow> world \<Rightarrow> (error + str list) \<times> manager \<times> world"
where
  "send_chunks L T wallet_key skip_preflight commitment compute_unit_limit
               compute_unit_price_micro_lamports [] signatures m w = (Inr signatures, m, w)"
| "send_chunks L T wallet_key skip_preflight commitment compute_unit_limit
               compute_unit_price_micro_lamports (chunk_items # rest) signatures m w =
     (case send_chunk L T wallet_key skip_preflight commitment compute_unit_limit
                      compute_unit_price_micro_lamports chunk_items m w of
        (Inl e, m', w') \<Rightarrow> (Inl e, m', w')
      | (Inr signature, m', w') \<Rightarrow>
          send_chunks L T wallet_key skip_preflight commitment compute_unit_limit
                      compute_unit_price_micro_lamports rest (signatures @ [signature]) m' w')"

text \<open>
  Line 304: \<^verbatim>\<open>max_per_transaction or self.default_max_recipients_per_tx\<close>, where
  \<^verbatim>\<open>None\<close> and 0 are the values that \<^verbatim>\<open>or\<close> passes over.
\<close>

definition batch_size :: "int option \<Rightarrow> manager \<Rightarrow> int" where
  "batch_size max_per_transaction m =
     (case max_per_transaction of
        None \<Rightarrow> default_max_recipients_per_tx m
      | Some n \<Rightarrow> if n = 0 then default_max_recipients_per_tx m else n)"

text \<open>\<^verbatim>\<open>send_mass_payments\<close> (lines 295 to 349).\<close>

definition send_mass_payments ::
  "library \<Rightarrow> transport \<Rightarrow> recipient list \<Rightarrow> int option \<Rightarrow> bool \<Rightarrow> str \<Rightarrow> int option \<Rightarrow>
   int option \<Rightarrow> manager \<Rightarrow> world \<Rightarrow> (error + str list) \<times> manager \<times> world"
where
  "send_mass_payments L T recipients max_per_transaction skip_preflight commitment
                      compute_unit_limit compute_unit_price_micro_lamports m w =
     (if batch_size max_per_transaction m < 1 then (Inl BatchSizeTooSmall, m, w)
      else
        (case wallet m of
           None \<Rightarrow> (Inl WalletNotLoaded, m, w)
         | Some wallet_key \<Rightarrow>
            (case chunk recipients (batch_size max_per_transaction m) of
               Inl e \<Rightarrow> (Inl e, m, w)
             | Inr chunks \<Rightarrow>
                 send_chunks L T wallet_key skip_preflight commitment compute_unit_limit
                   compute_unit_price_micro_lamports chunks [] m w)))"

text \<open>
  What the ledger answered, read off the history: the calls that returned, each with its
  request and its answer, and among them those that are not a question about the status
  of a signature.
\<close>

fun answered :: "event \<Rightarrow> (request \<times> reply) list" where
  "answered (Call c req (Inr v)) = [(req, v)]"
| "answered (Call c req (Inl e)) = []"
| "answered (Sleep d) = []"

definition answers :: "event list \<Rightarrow> (request \<times> reply) list" where
  "answers evs = concat (map answered evs)"

fun is_poll :: "request \<Rightarrow> bool" where
  "is_poll (GetSignatureStatuses signatures) = True"
| "is_poll (GetLatestBlockhash commitment) = False"
| "is_poll (SendTransaction tx skip_preflight commitment) = False"
| "is_poll (GetMultipleAccounts pubkeys commitment) = False"

definition ledger_answers :: "event list \<Rightarrow> (request \<times> reply) list" where
  "ledger_answers evs = filter (\<lambda>(req, v). \<not> is_poll req) (answers evs)"

text \<open>The recipients and lamports of the transfers of a transaction, in their order.\<close>

fun transfer_of :: "instruction \<Rightarrow> (str \<times> int) list" where
  "transfer_of (Transfer payer recipient_address n) = [(recipient_address, n)]"
| "transfer_of (SetComputeUnitLimit l) = []"
| "transfer_of (SetComputeUnitPrice p) = []"

definition transfers_in :: "transaction \<Rightarrow> (str \<times> int) list" where
  "transfers_in tx = concat (map transfer_of (tx_instructions tx))"

text \<open>
  What the ledger answers for one chunk that is sent: a blockhash, and then the
  submission of a transaction that holds this blockhash and the transfers of the chunk,
  one for each recipient and in their order.
\<close>

definition chunk_answers ::
  "str \<Rightarrow> bool \<Rightarrow> str \<times> transaction \<times> sent \<Rightarrow> (request \<times> reply) list" where
  "chunk_answers commitment skip_preflight a =
     (case a of (blockhash, tx, response) \<Rightarrow>
        [(GetLatestBlockhash commitment, Blockhash blockhash),
         (SendTransaction tx skip_preflight commitment, Sent response)])"

definition carries :: "recipient list \<Rightarrow> str \<times> transaction \<times> sent \<Rightarrow> bool" where
  "carries chunk_items a =
     (case a of (blockhash, tx, response) \<Rightarrow>
        tx_blockhash tx = blockhash \<and>
        transfers_in tx = map (\<lambda>r. (address r, lamports r)) chunk_items)"

text \<open>The signatures that the message of an exception names.\<close>

fun signatures_carried :: "error \<Rightarrow> str list" where
  "signatures_carried (TransactionFailed signature failure) = [signature]"
| "signatures_carried (NotConfirmed signature timeout_seconds last_status) = [signature]"
| "signatures_carried (RetriesExhausted n pool (Some e)) = signatures_carried e"
| "signatures_carried e = []"

text \<open>
  A ledger for the examples of the payments. The blockhash it gives and the signature it
  returns count the transactions it has accepted so far: the digit 2 at the end for the
  first one, 3 for the second, and so on. Every signature is reported as confirmed, but
  in \<open>failing_ledger\<close> the second one, which is reported with an error. Every call
  takes a tenth of a second.
\<close>

definition accepted_so_far :: "world \<Rightarrow> nat" where
  "accepted_so_far w =
     length (filter (\<lambda>(req, v). case req of SendTransaction tx skip commitment \<Rightarrow> True | _ \<Rightarrow> False)
               (answers (events w)))"

definition paying_ledger :: transport where
  "paying_ledger =
     \<lparr>get_latest_blockhash =
        (\<lambda>commitment w c. (Inr (replicate 31 49 @ [50 + accepted_so_far w]), 100)),
      send_transaction =
        (\<lambda>tx skip commitment w c.
           (Inr (ValueSignature (replicate 63 49 @ [50 + accepted_so_far w])), 100)),
      get_signature_statuses =
        (\<lambda>signatures w c.
           (Inr (map (\<lambda>s. Some \<lparr>err = None, confirmation_status = Some (lit ''confirmed''),
                                  confirmations = None\<rparr>) signatures), 100)),
      get_multiple_accounts = (\<lambda>pubkeys commitment w c. (Inr (map (\<lambda>a. None) pubkeys), 100))\<rparr>"

definition failing_ledger :: transport where
  "failing_ledger =
     paying_ledger\<lparr>get_signature_statuses :=
        (\<lambda>signatures w c.
           (Inr (map (\<lambda>s. Some \<lparr>err = (if s = signature_3 then Some ''InsufficientFundsForFee''
                                         else None),
                                  confirmation_status = Some (lit ''confirmed''),
                                  confirmations = None\<rparr>) signatures), 100))\<rparr>"

text \<open>The constructor's manager with the key pair of the zero seed loaded.\<close>

definition funded_manager :: manager where
  "funded_manager = default_manager\<lparr>wallet := Some (FromSeed (replicate 32 0))\<rparr>"

text \<open>Three recipients, of one, two and three lamports.\<close>

definition three_recipients :: "recipient list" where
  "three_recipients =
     [\<lparr>address = vote_program, lamports = 1\<rparr>,
      \<lparr>address = stake_program, lamports = 2\<rparr>,
      \<lparr>address = zero_seed_pubkey, lamports = 3\<rparr>]"

section \<open>Properties of the pool configuration\<close>

lemma strip_DEVNET_RPC_URL: "strip DEVNET_RPC_URL = DEVNET_RPC_URL"
  by (simp add: strip_def DEVNET_RPC_URL_def lit_def is_space_def)

lemma DEVNET_RPC_URL_not_empty: "DEVNET_RPC_URL \<noteq> []"
  by (simp add: DEVNET_RPC_URL_def lit_def)

lemma init_defaults:
  "init DEVNET_RPC_URL 10 3 (1 / 2) 95 10 (Some 200000) None = Inr default_manager"
  by (simp add: init_def set_rpc_pool_def default_manager_def strip_DEVNET_RPC_URL
        DEVNET_RPC_URL_not_empty)

lemma set_rpc_pool_no_endpoint:
  "collect_unique endpoints [] {} = [] \<Longrightarrow>
   set_rpc_pool endpoints max_retries retry_backoff timeout_arg m = (Inl NoValidEndpoint, m)"
  by (simp add: set_rpc_pool_def)

lemma set_rpc_pool_retries_too_small:
  "collect_unique endpoints [] {} \<noteq> [] \<Longrightarrow> r < 1 \<Longrightarrow>
   set_rpc_pool endpoints (Some r) retry_backoff timeout_arg m = (Inl MaxRetriesTooSmall, m)"
  by (simp add: set_rpc_pool_def)

text \<open>
  C2. On the manager that \<^verbatim>\<open>SolanaPayoutManager()\<close> builds, the call
  \<^verbatim>\<open>set_rpc_pool([DEVNET_RPC_URL], max_retries=5, retry_backoff=-1.0)\<close> raises the
  \<^verbatim>\<open>ValueError\<close> of the negative back-off, and leaves
  \<^verbatim>\<open>max_retries_per_endpoint\<close> at 5 where it was 3: the retry count is assigned
  before the back-off is checked.
\<close>

theorem set_rpc_pool_backoff_after_retries:
  "set_rpc_pool [DEVNET_RPC_URL] (Some 5) (Some (- 1)) None default_manager
     = (Inl BackoffNegative, default_manager\<lparr>max_retries_per_endpoint := 5\<rparr>)
   \<and> class_of BackoffNegative = ValueError
   \<and> max_retries_per_endpoint default_manager = 3"
  by (simp add: set_rpc_pool_def strip_DEVNET_RPC_URL DEVNET_RPC_URL_not_empty
        default_manager_def)

section \<open>Properties of the wallet loader\<close>

lemma load_wallet_decoded:
  "load_wallet_from_file L path file m =
     (case decoded_secret L path file of
        Inl e \<Rightarrow> (Inl e, m)
      | Inr bs \<Rightarrow> (case keypair_from_bytes L bs of
                    Inl e \<Rightarrow> (Inl e, m)
                  | Inr k \<Rightarrow> (Inr (pubkey_str L k), m\<lparr>wallet := Some k\<rparr>)))"
  by (simp add: load_wallet_from_file_def decoded_secret_def Let_def
           split: disk_file.split option.split json.split sum.split)

text \<open>
  C9. A wallet file, JSON array or base-58 text, loads only when its secret decodes to
  exactly 32 bytes, which become a seed, or to exactly 64 bytes, which become a full
  secret key; a secret that decodes to any other length fails with a
  \<^verbatim>\<open>WalletLoadError\<close> and leaves the manager as it was.
\<close>

theorem load_wallet_secret_length:
  "(\<forall>a m'. load_wallet_from_file L path file m = (Inr a, m') \<longrightarrow>
      (\<exists>bs. decoded_secret L path file = Inr bs \<and>
         ((length bs = 32 \<and> wallet m' = Some (FromSeed bs)) \<or>
          (length bs = 64 \<and> wallet m' = Some (FromBytes bs)))))
   \<and> (\<forall>bs. decoded_secret L path file = Inr bs \<and> length bs \<noteq> 32 \<and> length bs \<noteq> 64 \<longrightarrow>
         (\<exists>e. load_wallet_from_file L path file m = (Inl e, m) \<and> class_of e = WalletLoadError))"
  by (auto simp: load_wallet_decoded keypair_from_bytes_def split: sum.splits if_splits)

lemma strip_zero_seed_text:
  "strip (lit '' 11111111111111111111111111111111 '') = zero_seed_text"
  by (simp add: strip_def is_space_def zero_seed_text_def lit_def)

lemma zero_seed_text_not_empty: "zero_seed_text \<noteq> []"
  by (simp add: zero_seed_text_def lit_def)

lemma zero_seed_text_not_json: "zero_seed_text \<noteq> lit ''[7, 7, 7]''"
  by (simp add: zero_seed_text_def lit_def)

lemma lit_777_not_empty: "lit ''[7, 7, 7]'' \<noteq> []"
  by (simp add: lit_def)

lemma strip_777: "strip (lit ''[7, 7, 7]'') = lit ''[7, 7, 7]''"
  by (simp add: strip_def is_space_def lit_def)

theorem load_wallet_secret_length_witness:
  "load_wallet_from_file example_library ''id.json''
       (Holding (lit '' 11111111111111111111111111111111 '')) default_manager
     = (Inr zero_seed_pubkey, default_manager\<lparr>wallet := Some (FromSeed (replicate 32 0))\<rparr>)
   \<and> decoded_secret example_library ''id.json''
         (Holding (lit '' 11111111111111111111111111111111 '')) = Inr (replicate 32 0)
   \<and> decoded_secret example_library ''id.json'' (Holding (lit ''[7, 7, 7]'')) = Inr [7, 7, 7]
   \<and> (\<exists>e. load_wallet_from_file example_library ''id.json'' (Holding (lit ''[7, 7, 7]''))
               default_manager
             = (Inl e, default_manager) \<and> class_of e = WalletLoadError)"
proof -
  have a: "load_wallet_from_file example_library ''id.json''
       (Holding (lit '' 11111111111111111111111111111111 '')) default_manager
     = (Inr zero_seed_pubkey, default_manager\<lparr>wallet := Some (FromSeed (replicate 32 0))\<rparr>)"
    by (simp add: load_wallet_from_file_def strip_zero_seed_text example_library_def
          keypair_from_bytes_def zero_seed_text_not_empty zero_seed_text_not_json)
  from load_wallet_secret_length
         [of example_library "''id.json''" "Holding (lit '' 11111111111111111111111111111111 '')"
             default_manager] a
  have b: "decoded_secret example_library ''id.json''
         (Holding (lit '' 11111111111111111111111111111111 '')) = Inr (replicate 32 0)"
    by auto
  have c: "decoded_secret example_library ''id.json'' (Holding (lit ''[7, 7, 7]'')) = Inr [7, 7, 7]"
    by (simp add: decoded_secret_def strip_777 lit_777_not_empty example_library_def)
  from load_wallet_secret_length
         [of example_library "''id.json''" "Holding (lit ''[7, 7, 7]'')" default_manager] c
  have d: "\<exists>e. load_wallet_from_file example_library ''id.json'' (Holding (lit ''[7, 7, 7]''))
               default_manager
             = (Inl e, default_manager) \<and> class_of e = WalletLoadError"
    by simp
  from a b c d show ?thesis by simp
qed

section \<open>Properties of the retry loop\<close>

lemma rotated_0: "pool_ready m \<Longrightarrow> rotated m 0 = m"
  by (simp add: rotated_def pool_ready_def client_at_def)

lemma rotated_full: "pool_ready m \<Longrightarrow> rotated m (length (rpc_endpoints m)) = m"
  by (simp add: rotated_def pool_ready_def client_at_def)

lemma rotated_single: "pool_ready m \<Longrightarrow> length (rpc_endpoints m) = 1 \<Longrightarrow> rotated m j = m"
  by (simp add: rotated_def pool_ready_def client_at_def)

lemma rotate_rotated:
  "1 < length (rpc_endpoints m) \<Longrightarrow> rotate_endpoint (rotated m j) = rotated m (Suc j)"
  by (simp add: rotate_endpoint_def rotated_def client_at_def Let_def mod_Suc_eq)

lemma rotated_fields [simp]:
  "rpc_endpoints (rotated m j) = rpc_endpoints m"
  "max_retries_per_endpoint (rotated m j) = max_retries_per_endpoint m"
  "retry_backoff_seconds (rotated m j) = retry_backoff_seconds m"
  "client (rotated m j) = client_at m j"
  by (simp_all add: rotated_def)

lemma rotation_step:
  assumes "pool_ready m" "0 < R"
  shows "(if 1 < length (rpc_endpoints m) \<and> Suc a mod R = 0
          then rotate_endpoint (rotated m (a div R)) else rotated m (a div R))
         = rotated m (Suc a div R)"
proof (cases "1 < length (rpc_endpoints m)")
  case True
  then show ?thesis by (simp add: rotate_rotated div_Suc)
next
  case False
  with assms have "length (rpc_endpoints m) = 1"
    by (cases "rpc_endpoints m") (auto simp: pool_ready_def)
  with assms show ?thesis by (simp add: rotated_single)
qed

lemma sleep_taken:
  assumes "0 \<le> d" and "d \<le> l" and "sleep_fits l"
  shows "time_sleep d w = Inr (w\<lparr>now := now w + d, events := events w @ [Sleep d]\<rparr>)"
proof -
  from assms(2) have "d * 1000000000 \<le> l * 1000000000" by simp
  with assms(3) have hi: "d * 1000000000 \<le> 9223372036854775807"
    by (simp add: sleep_fits_def)
  from assms(1) have lo: "0 \<le> d * 1000000000" by simp
  from hi lo assms(1) show ?thesis by (simp add: time_sleep_def)
qed

lemma perform_loop_always_fails:
  assumes ready: "pool_ready m"
    and fails: "\<forall>w c. \<exists>e d. rpc w c = (Inl e, d)"
    and R: "max_retries_per_endpoint m = int R"
    and N: "length (rpc_endpoints m) = N"
    and fits: "sleep_fits (longest_sleep m (N * R))"
  shows "a \<le> N * R \<Longrightarrow>
    \<exists>es w'. length es = N * R - a \<and>
      perform_loop (call wrap rpc req) (int a) (int N) (int (N * R)) le (rotated m (a div R)) w
        = (Inl (RetriesExhausted (int (N * R)) (rpc_endpoints m)
                  (if es = [] then le else Some (last es))), m, w') \<and>
      events w' = events w @ concat (map2 (attempt_events m req) [Suc a..<Suc (N * R)] es)"
proof (induction "N * R - a" arbitrary: a le w)
  case 0
  then have a: "a = N * R" by simp
  from ready R have Rpos: "0 < R" by (simp add: pool_ready_def)
  have "rotated m (N * R div R) = m"
    using Rpos rotated_full[OF ready] N by simp
  then show ?case using a by (intro exI[of _ "[]"]) simp
next
  case (Suc n)
  from ready R have Rpos: "0 < R" by (simp add: pool_ready_def)
  from ready have b0: "0 \<le> retry_backoff_seconds m" by (simp add: pool_ready_def)
  from Suc have lt: "a < N * R" by simp
  from fails obtain e d where md: "rpc w (client_at m (a div R)) = (Inl e, d)" by blast
  define w1 where "w1 = w\<lparr>now := now w + real d / 1000,
       events := events w @ [Call (client_at m (a div R)) req (Inl e)]\<rparr>"
  have c: "call wrap rpc req (client_at m (a div R)) w = (Inl e, w1)"
    by (simp add: call_def md w1_def)
  define dur where "dur = retry_backoff_seconds m * real_of_int (min (int a + 1) 4)"
  have dur0: "0 \<le> dur" using b0 by (simp add: dur_def)
  have durk: "dur = retry_backoff_seconds m * real (min (Suc a) 4)"
    by (simp add: dur_def min_def)
  have "real (min (Suc a) 4) \<le> real (min (N * R) 4)" using lt by simp
  then have durl: "dur \<le> longest_sleep m (N * R)"
    unfolding durk longest_sleep_def using b0 by (rule mult_left_mono)
  define w2 where "w2 = w1\<lparr>now := now w1 + dur, events := events w1 @ [Sleep dur]\<rparr>"
  have s: "time_sleep dur w1 = Inr w2"
    unfolding w2_def using dur0 durl fits by (rule sleep_taken)
  have modeq: "((int a + 1) mod int R = 0) = (Suc a mod R = 0)"
    by (metis of_nat_Suc of_nat_mod of_nat_eq_0_iff add.commute)
  have lt_int: "int a < int N * int R"
    using lt by (metis of_nat_less_iff of_nat_mult)
  have step1: "perform_loop (call wrap rpc req) (int a) (int N) (int (N * R)) le (rotated m (a div R)) w
      = perform_loop (call wrap rpc req) (int a + 1) (int N) (int (N * R)) (Some e)
          (rotated m (Suc a div R)) w2"
    using lt_int c s rotation_step[OF ready Rpos, of a] N
    apply (subst perform_loop.simps)
    apply (simp add: R dur_def[symmetric] modeq del: perform_loop.simps)
    done
  have "int a + 1 = int (Suc a)" by simp
  with step1 have step: "perform_loop (call wrap rpc req) (int a) (int N) (int (N * R)) le (rotated m (a div R)) w
      = perform_loop (call wrap rpc req) (int (Suc a)) (int N) (int (N * R)) (Some e)
          (rotated m (Suc a div R)) w2"
    by (simp only:)
  have "n = N * R - Suc a" using Suc by simp
  from Suc(1)[OF this, of "Some e" w2] lt
  obtain es w' where es: "length es = N * R - Suc a"
    and run: "perform_loop (call wrap rpc req) (int (Suc a)) (int N) (int (N * R)) (Some e)
          (rotated m (Suc a div R)) w2
        = (Inl (RetriesExhausted (int (N * R)) (rpc_endpoints m)
                  (if es = [] then Some e else Some (last es))), m, w')"
    and ev: "events w' = events w2 @ concat (map2 (attempt_events m req) [Suc (Suc a)..<Suc (N * R)] es)"
    by auto
  have upt: "[Suc a..<Suc (N * R)] = Suc a # [Suc (Suc a)..<Suc (N * R)]"
    using lt by (simp add: upt_conv_Cons)
  have ev2: "events w2 = events w @ attempt_events m req (Suc a) e"
    by (simp add: w2_def w1_def attempt_events_def R durk)
  have len: "length (e # es) = N * R - a" using es lt by simp
  have res: "perform_loop (call wrap rpc req) (int a) (int N) (int (N * R)) le (rotated m (a div R)) w
        = (Inl (RetriesExhausted (int (N * R)) (rpc_endpoints m)
                  (if e # es = [] then le else Some (last (e # es)))), m, w')"
    using step run by (simp del: perform_loop.simps)
  have evs: "events w' = events w @ concat (map2 (attempt_events m req) [Suc a..<Suc (N * R)] (e # es))"
    unfolding upt using ev ev2 by (simp del: upt_Suc)
  from len res evs show ?case by blast
qed

text \<open>
  C5. On a manager whose pool holds \<open>N\<close> endpoints, with \<open>R\<close> tries for each endpoint
  and a back-off \<open>b\<close> whose longest sleep, \<open>b * min (N * R) 4\<close>, is one that
  \<^verbatim>\<open>time.sleep\<close> takes, an operation that raises at every attempt is attempted
  exactly \<open>N * R\<close> times: attempt \<open>k\<close> goes to the endpoint \<open>(k - 1) div R\<close> places
  after the starting one, wrapping around the pool, and is followed by a sleep of
  \<open>b * min k 4\<close>; the call then fails with the \<^verbatim>\<open>RuntimeError\<close> of line 134, which
  carries the exception of the last attempt, and the manager is back on the endpoint it
  started from. The back-off is a finite float, read as the real number it holds.
\<close>

theorem perform_exhausts_pool:
  assumes "pool_ready m" and "\<forall>w c. \<exists>e d. rpc w c = (Inl e, d)"
    and "N = length (rpc_endpoints m)" and "R = nat (max_retries_per_endpoint m)"
    and "sleep_fits (longest_sleep m (N * R))"
  shows "\<exists>es w'. length es = N * R \<and>
      perform (call wrap rpc req) m w
        = (Inl (RetriesExhausted (int (N * R)) (rpc_endpoints m) (Some (last es))), m, w') \<and>
      events w' = events w @ concat (map2 (attempt_events m req) [1..<Suc (N * R)] es)"
proof -
  from assms have R: "max_retries_per_endpoint m = int R" and Rpos: "0 < R" and Npos: "0 < N"
    by (auto simp: pool_ready_def)
  from perform_loop_always_fails[OF assms(1) assms(2) R assms(3)[symmetric] assms(5),
         of 0 wrap req None w]
  obtain es w' where es: "length es = N * R"
    and run: "perform_loop (call wrap rpc req) 0 (int N) (int (N * R)) None (rotated m 0) w
        = (Inl (RetriesExhausted (int (N * R)) (rpc_endpoints m)
                  (if es = [] then None else Some (last es))), m, w')"
    and ev: "events w' = events w @ concat (map2 (attempt_events m req) [Suc 0..<Suc (N * R)] es)"
    by auto
  from es Rpos Npos have ne: "es \<noteq> []" by auto
  show ?thesis
    apply (rule exI[of _ es], rule exI[of _ w'])
    using es run ev ne assms(3) R rotated_0[OF assms(1)]
    apply (simp add: perform_def del: perform_loop.simps)
    done
qed

lemma two_ready: "pool_ready two_endpoints"
  by (simp add: pool_ready_def two_endpoints_def default_manager_def)

theorem perform_exhausts_pool_witness:
  "pool_ready two_endpoints \<and> sleep_fits (longest_sleep two_endpoints 4) \<and>
   (\<exists>es w'. length es = 4 \<and>
      perform (call Blockhash always_down (GetLatestBlockhash (lit ''confirmed''))) two_endpoints
          \<lparr>now = 0, events = []\<rparr>
        = (Inl (RetriesExhausted 4 (rpc_endpoints two_endpoints) (Some (last es))),
           two_endpoints, w') \<and>
      events w' = concat (map2 (attempt_events two_endpoints (GetLatestBlockhash (lit ''confirmed'')))
                            [1..<5] es))"
proof -
  have f: "\<forall>w c. \<exists>e d. always_down w c = (Inl e, d)"
    by (simp add: always_down_def)
  have n: "2 = length (rpc_endpoints two_endpoints)"
    by (simp add: two_endpoints_def)
  have r: "2 = nat (max_retries_per_endpoint two_endpoints)"
    by (simp add: two_endpoints_def)
  have s: "sleep_fits (longest_sleep two_endpoints (2 * 2))"
    by (simp add: sleep_fits_def longest_sleep_def two_endpoints_def default_manager_def)
  from perform_exhausts_pool[OF two_ready f n r s, of Blockhash
         "GetLatestBlockhash (lit ''confirmed'')" "\<lparr>now = 0, events = []\<rparr>"] two_ready s
  show ?thesis by simp
qed

lemma perform_two_endpoints_run:
  "perform (call wrap always_down req) two_endpoints \<lparr>now = 0, events = []\<rparr>
     = (Inl (RetriesExhausted 4 [DEVNET_RPC_URL, ANKR_DEVNET_RPC]
               (Some (Raised OtherException ''down''))),
        two_endpoints,
        \<lparr>now = 5,
         events =
           [Call \<lparr>client_endpoint = DEVNET_RPC_URL, client_timeout = 10\<rparr> req
              (Inl (Raised OtherException ''down'')),
            Sleep (1 / 2),
            Call \<lparr>client_endpoint = DEVNET_RPC_URL, client_timeout = 10\<rparr> req
              (Inl (Raised OtherException ''down'')),
            Sleep 1,
            Call \<lparr>client_endpoint = ANKR_DEVNET_RPC, client_timeout = 10\<rparr> req
              (Inl (Raised OtherException ''down'')),
            Sleep (3 / 2),
            Call \<lparr>client_endpoint = ANKR_DEVNET_RPC, client_timeout = 10\<rparr> req
              (Inl (Raised OtherException ''down'')),
            Sleep 2]\<rparr>)"
  by (simp add: perform_def two_endpoints_def default_manager_def call_def always_down_def
        time_sleep_def rotate_endpoint_def Let_def)

text \<open>
  Beyond that bound the loop does not run to its end: with a back-off of ten thousand
  million seconds, which \<^verbatim>\<open>set_rpc_pool\<close> accepts, the first sleep raises
  \<^verbatim>\<open>OverflowError\<close> and \<^verbatim>\<open>_perform\<close> is left after one attempt.
\<close>

lemma perform_long_backoff_run:
  "perform (call wrap always_down req) long_backoff \<lparr>now = 0, events = []\<rparr>
     = (Inl (Raised OverflowError ''time.sleep''), long_backoff,
        \<lparr>now = 0,
         events = [Call \<lparr>client_endpoint = DEVNET_RPC_URL, client_timeout = 10\<rparr> req
                     (Inl (Raised OtherException ''down''))]\<rparr>)"
  by (simp add: perform_def long_backoff_def default_manager_def call_def always_down_def
        time_sleep_def Let_def)

lemma set_rpc_pool_ready:
  "set_rpc_pool endpoints max_retries retry_backoff timeout_arg m = (Inr u, m') \<Longrightarrow>
   1 \<le> max_retries_per_endpoint m \<Longrightarrow> 0 \<le> retry_backoff_seconds m \<Longrightarrow> pool_ready m'"
  by (auto simp: set_rpc_pool_def pool_ready_def Let_def hd_conv_nth
           split: option.splits if_splits)

section \<open>Properties of the recipient file\<close>

subsection \<open>Dictionaries\<close>

lemma map_of_dict_set: "map_of (dict_set k v d) = (map_of d)(k \<mapsto> v)"
  by (induction d) (auto simp: fun_eq_iff)

lemma keys_dict_set_old: "k \<in> fst ` set d \<Longrightarrow> map fst (dict_set k v d) = map fst d"
  by (induction d) auto

lemma keys_dict_set_new: "k \<notin> fst ` set d \<Longrightarrow> map fst (dict_set k v d) = map fst d @ [k]"
  by (induction d) auto

lemma keyset_dict_set: "fst ` set (dict_set k v d) = insert k (fst ` set d)"
  by (induction d) auto

lemma distinct_dict_set: "distinct (map fst d) \<Longrightarrow> distinct (map fst (dict_set k v d))"
  by (cases "k \<in> fst ` set d") (simp_all add: keys_dict_set_old keys_dict_set_new)

lemma values_of_distinct_dict:
  "distinct (map fst d) \<Longrightarrow> map snd d = map (\<lambda>k. the (map_of d k)) (map fst d)"
proof (induction d)
  case Nil
  then show ?case by simp
next
  case (Cons p d)
  obtain k v where p: "p = (k, v)" by (cases p)
  from Cons.prems p have notin: "k \<notin> fst ` set d" and dist: "distinct (map fst d)"
    by auto
  have "\<And>x. x \<in> set d \<Longrightarrow> the (map_of (p # d) (fst x)) = the (map_of d (fst x))"
    using notin p by force
  then have "map (\<lambda>x. the (map_of (p # d) (fst x))) d = map (\<lambda>x. the (map_of d (fst x))) d"
    by (intro map_cong) auto
  with Cons.IH[OF dist] show ?case by (simp add: p comp_def)
qed

lemma set_first_seen: "set (first_seen S xs) = set xs - S"
  by (induction xs arbitrary: S) auto

lemma distinct_first_seen: "distinct (first_seen S xs)"
  by (induction xs arbitrary: S) (auto simp: set_first_seen)

subsection \<open>The merging loop\<close>

lemma map_of_None_keys: "map_of d k = None \<Longrightarrow> k \<notin> fst ` set d"
  by (simp add: map_of_eq_None_iff)

lemma map_of_Some_keys: "map_of d k = Some v \<Longrightarrow> k \<in> fst ` set d"
  by (metis map_of_eq_None_iff option.distinct(1))

lemma aggregate_Cons_new:
  "map_of agg (address r) = None \<Longrightarrow>
   aggregate (r # rs) agg dups
     = aggregate rs (dict_set (address r) \<lparr>address = address r, lamports = lamports r\<rparr> agg) dups"
  by simp

lemma aggregate_Cons_old:
  "map_of agg (address r) = Some r0 \<Longrightarrow>
   aggregate (r # rs) agg dups
     = aggregate rs (dict_set (address r) (r0\<lparr>lamports := lamports r0 + lamports r\<rparr>) agg)
         (dict_set (address r)
            ((case map_of dups (address r) of None \<Rightarrow> 0 | Some n \<Rightarrow> n) + 1) dups)"
  by simp

lemma aggregate_keys:
  "map fst (fst (aggregate rs agg dups))
     = map fst agg @ first_seen (fst ` set agg) (map address rs)"
proof (induction rs arbitrary: agg dups)
  case Nil
  then show ?case by simp
next
  case (Cons r rs)
  show ?case
  proof (cases "map_of agg (address r)")
    case None
    note k = map_of_None_keys[OF None]
    show ?thesis
      unfolding aggregate_Cons_new[OF None] Cons.IH
      using k by (simp add: keys_dict_set_new keyset_dict_set)
  next
    case (Some r0)
    note k = map_of_Some_keys[OF Some]
    show ?thesis
      unfolding aggregate_Cons_old[OF Some] Cons.IH
      using k by (simp add: keys_dict_set_old keyset_dict_set insert_absorb)
  qed
qed

lemma total_for_Cons:
  "total_for a (r # rs) = (if address r = a then lamports r + total_for a rs else total_for a rs)"
  by (simp add: total_for_def)

lemma aggregate_map_of:
  "map_of (fst (aggregate rs agg dups)) a =
     (case map_of agg a of
        Some r0 \<Rightarrow> Some (r0\<lparr>lamports := lamports r0 + total_for a rs\<rparr>)
      | None \<Rightarrow> if a \<in> address ` set rs then Some \<lparr>address = a, lamports = total_for a rs\<rparr>
                else None)"
proof (induction rs arbitrary: agg dups)
  case Nil
  then show ?case by (simp add: total_for_def split: option.split)
next
  case (Cons r rs)
  show ?case
  proof (cases "map_of agg (address r)")
    case None
    show ?thesis
      unfolding aggregate_Cons_new[OF None] Cons.IH
      using None by (simp add: map_of_dict_set total_for_Cons split: option.split)
  next
    case (Some r0)
    show ?thesis
      unfolding aggregate_Cons_old[OF Some] Cons.IH
      using Some by (simp add: map_of_dict_set total_for_Cons split: option.split)
  qed
qed

lemma aggregate_distinct:
  "distinct (map fst agg) \<Longrightarrow> distinct (map fst (fst (aggregate rs agg dups)))"
  by (auto simp: aggregate_keys distinct_first_seen set_first_seen)

lemma aggregate_recipients:
  "map snd (fst (aggregate rs [] []))
     = map (\<lambda>a. \<lparr>address = a, lamports = total_for a rs\<rparr>) (first_seen {} (map address rs))"
proof -
  let ?d = "fst (aggregate rs [] [])"
  have d: "distinct (map fst ?d)" by (simp add: aggregate_distinct)
  have k: "map fst ?d = first_seen {} (map address rs)" by (simp add: aggregate_keys)
  have "map snd ?d = map (\<lambda>k. the (map_of ?d k)) (first_seen {} (map address rs))"
    using values_of_distinct_dict[OF d] k by simp
  also have "\<dots> = map (\<lambda>a. \<lparr>address = a, lamports = total_for a rs\<rparr>) (first_seen {} (map address rs))"
    by (rule map_cong) (auto simp: aggregate_map_of set_first_seen)
  finally show ?thesis .
qed

lemma sum_dict_set_new:
  "map_of d k = None \<Longrightarrow> sum_dict (dict_set k v d) = sum_dict d + lamports v"
  by (induction d) (auto simp: sum_dict_def split: if_splits)

lemma sum_dict_set_old:
  "map_of d k = Some r0 \<Longrightarrow> sum_dict (dict_set k v d) = sum_dict d - lamports r0 + lamports v"
  by (induction d) (auto simp: sum_dict_def split: if_splits)

lemma aggregate_sum:
  "sum_dict (fst (aggregate rs agg dups)) = sum_dict agg + sum_lamports rs"
proof (induction rs arbitrary: agg dups)
  case Nil
  then show ?case by (simp add: sum_lamports_def)
next
  case (Cons r rs)
  show ?case
  proof (cases "map_of agg (address r)")
    case None
    show ?thesis
      unfolding aggregate_Cons_new[OF None] Cons.IH
      by (simp add: sum_dict_set_new[OF None] sum_lamports_def)
  next
    case (Some r0)
    show ?thesis
      unfolding aggregate_Cons_old[OF Some] Cons.IH
      by (simp add: sum_dict_set_old[OF Some] sum_lamports_def)
  qed
qed

lemma aggregate_duplicates:
  "map_of (snd (aggregate rs agg dups)) a =
     (let n = (if a \<in> fst ` set agg then count_list (map address rs) a
               else count_list (map address rs) a - 1)
      in if n = 0 then map_of dups a
         else Some ((case map_of dups a of None \<Rightarrow> 0 | Some c \<Rightarrow> c) + n))"
proof (induction rs arbitrary: agg dups)
  case Nil
  then show ?case by simp
next
  case (Cons r rs)
  show ?case
  proof (cases "map_of agg (address r)")
    case None
    note k = map_of_None_keys[OF None]
    show ?thesis
      unfolding aggregate_Cons_new[OF None] Cons.IH
      using k by (auto simp: keyset_dict_set Let_def)
  next
    case (Some r0)
    note k = map_of_Some_keys[OF Some]
    show ?thesis
      unfolding aggregate_Cons_old[OF Some] Cons.IH
      using k by (auto simp: keyset_dict_set map_of_dict_set Let_def insert_absorb split: option.split)
  qed
qed

lemma aggregate_duplicates_distinct:
  "distinct (map fst dups) \<Longrightarrow> distinct (map fst (snd (aggregate rs agg dups)))"
proof (induction rs arbitrary: agg dups)
  case Nil
  then show ?case by simp
next
  case (Cons r rs)
  show ?case
  proof (cases "map_of agg (address r)")
    case None
    show ?thesis unfolding aggregate_Cons_new[OF None] using Cons by simp
  next
    case (Some r0)
    show ?thesis unfolding aggregate_Cons_old[OF Some]
      using Cons.prems by (intro Cons.IH distinct_dict_set)
  qed
qed

subsection \<open>The warnings\<close>

lemma parse_lines_warnings:
  "parse_lines L d n lines raw warns = Inr (raw', warns') \<Longrightarrow>
   \<exists>ws. warns' = warns @ map LineWarning ws"
proof (induction lines arbitrary: n raw warns)
  case Nil
  then show ?case by simp
next
  case (Cons l lines)
  let ?line = "lstrip_bom (strip l)"
  show ?case
  proof (cases "?line = [] \<or> hd ?line = of_char CHR ''#''")
    case True
    with Cons.prems have "parse_lines L d (n + 1) lines raw warns = Inr (raw', warns')"
      by (simp add: Let_def)
    then show ?thesis by (rule Cons.IH)
  next
    case False
    show ?thesis
    proof (cases "parse_recipient_line L ?line n d")
      case (Inl exc)
      with False Cons.prems
      have "parse_lines L d (n + 1) lines raw (warns @ [LineWarning exc]) = Inr (raw', warns')"
        by (simp add: Let_def split: if_splits)
      from Cons.IH[OF this] obtain ws where "warns' = (warns @ [LineWarning exc]) @ map LineWarning ws"
        by blast
      then have "warns' = warns @ map LineWarning (exc # ws)" by simp
      then show ?thesis by blast
    next
      case (Inr r)
      with False Cons.prems
      have "parse_lines L d (n + 1) lines (raw @ [r]) warns = Inr (raw', warns')"
        by (simp add: Let_def)
      then show ?thesis by (rule Cons.IH)
    qed
  qed
qed

lemma count_line_warnings: "count_list (map LineWarning ws) (DuplicateWarning a n) = 0"
  by (induction ws) auto

lemma count_duplicate_warnings:
  "distinct (map fst d) \<Longrightarrow>
   count_list (map (\<lambda>(a, count). DuplicateWarning a (count + 1)) d) (DuplicateWarning a n)
     = (if \<exists>c. map_of d a = Some c \<and> n = c + 1 then 1 else 0)"
proof (induction d)
  case Nil
  then show ?case by simp
next
  case (Cons p d)
  obtain k v where p: "p = (k, v)" by (cases p)
  from Cons.prems p have notin: "k \<notin> fst ` set d" and dist: "distinct (map fst d)"
    by auto
  from notin have none: "map_of d k = None" by (simp add: map_of_eq_None_iff)
  show ?case
    using Cons.IH[OF dist] none by (auto simp: p)
qed

lemma count_list_app: "count_list (xs @ ys) x = count_list xs x + count_list ys x"
  by (induction xs) auto

subsection \<open>The whole function\<close>

lemma read_recipients_Inr:
  assumes "read_recipients_from_file L path file d m = (Inr recipients, m')"
  shows "\<exists>raw_lines recipients_raw line_warnings.
     file = Holding raw_lines \<and>
     parse_lines L d 1 raw_lines [] [] = Inr (recipients_raw, line_warnings) \<and>
     recipients = map snd (fst (aggregate recipients_raw [] [])) \<and>
     last_recipient_warnings m' = line_warnings @
        map (\<lambda>(a, count). DuplicateWarning a (count + 1)) (snd (aggregate recipients_raw [] []))"
proof (cases "file")
  case Missing
  with assms show ?thesis by (simp add: read_recipients_from_file_def)
next
  case (Unreadable e)
  with assms show ?thesis by (simp add: read_recipients_from_file_def)
next
  case (Holding raw_lines)
  show ?thesis
  proof (cases "parse_lines L d 1 raw_lines [] []")
    case (Inl e)
    with Holding assms show ?thesis by (simp add: read_recipients_from_file_def)
  next
    case (Inr res)
    obtain recipients_raw line_warnings where res: "res = (recipients_raw, line_warnings)"
      by (cases res)
    obtain agg dups where a: "aggregate recipients_raw [] [] = (agg, dups)"
      by (cases "aggregate recipients_raw [] []")
    from assms Holding Inr res a
    have "recipients = map snd agg \<and>
          last_recipient_warnings m' = line_warnings @ map (\<lambda>(a, count). DuplicateWarning a (count + 1)) dups"
      by (simp add: read_recipients_from_file_def Let_def split: if_splits) auto
    with Holding Inr res a show ?thesis by simp
  qed
qed

lemma sol_to_lamports_positive: "sol_to_lamports x = Inr n \<Longrightarrow> 0 < n"
  by (cases x) (auto simp: sol_to_lamports_def Let_def split: if_splits prod.splits)

lemma parse_recipient_line_positive:
  "parse_recipient_line L line n d = Inr r \<Longrightarrow> 0 < lamports r"
  by (auto simp: parse_recipient_line_def split: list.splits if_splits option.splits sum.splits
           dest: sol_to_lamports_positive)

lemma sum_lamports_values: "sum_lamports (map snd d) = sum_dict d"
  by (simp add: sum_lamports_def sum_dict_def comp_def)

subsection \<open>A file with a repeated address, and one with an amount below one lamport\<close>

lemma line_vote_1:
  "lstrip_bom (strip (lit ''Vote111111111111111111111111111111111111111 1''))
     = vote_program @ lit '' 1''"
  by (simp add: strip_def is_space_def lstrip_bom_def BOM_def lit_def vote_program_def)

lemma line_vote_2:
  "lstrip_bom (strip (lit ''Vote111111111111111111111111111111111111111 2''))
     = vote_program @ lit '' 2''"
  by (simp add: strip_def is_space_def lstrip_bom_def BOM_def lit_def vote_program_def)

lemma line_stake_tiny:
  "lstrip_bom (strip (lit ''Stake11111111111111111111111111111111111111 0.0000000001''))
     = stake_program @ lit '' 0.0000000001''"
  by (simp add: strip_def is_space_def lstrip_bom_def BOM_def lit_def stake_program_def)

lemma tokens_vote_1: "split_tokens (vote_program @ lit '' 1'') [] = [vote_program, lit ''1'']"
  by (simp add: is_separator_def is_space_def lit_def vote_program_def)

lemma tokens_vote_2: "split_tokens (vote_program @ lit '' 2'') [] = [vote_program, lit ''2'']"
  by (simp add: is_separator_def is_space_def lit_def vote_program_def)

lemma tokens_stake_tiny:
  "split_tokens (stake_program @ lit '' 0.0000000001'') []
     = [stake_program, lit ''0.0000000001'']"
  by (simp add: is_separator_def is_space_def lit_def stake_program_def)

lemma programs_differ: "stake_program \<noteq> vote_program"
  by (simp add: lit_def stake_program_def vote_program_def)

lemma line_not_comment:
  "vote_program @ s \<noteq> []" "hd (vote_program @ s) \<noteq> of_char CHR ''#''"
  "stake_program @ s \<noteq> []" "hd (stake_program @ s) \<noteq> of_char CHR ''#''"
  by (simp_all add: lit_def stake_program_def vote_program_def)

lemma sol_to_lamports_1: "sol_to_lamports (Dec 1 0) = Inr 1000000000"
  by (simp add: sol_to_lamports_def context_round_def LAMPORTS_PER_SOL_def)

lemma sol_to_lamports_2: "sol_to_lamports (Dec 2 0) = Inr 2000000000"
  by (simp add: sol_to_lamports_def context_round_def LAMPORTS_PER_SOL_def)

lemma sol_to_lamports_tiny: "sol_to_lamports (Dec 1 (- 10)) = Inl AmountTooSmall"
  by (simp add: sol_to_lamports_def context_round_def LAMPORTS_PER_SOL_def)

lemma parse_vote_1:
  "parse_recipient_line example_library (vote_program @ lit '' 1'') n None
     = Inr \<lparr>address = vote_program, lamports = 1000000000\<rparr>"
  unfolding parse_recipient_line_def tokens_vote_1
  by (simp add: example_library_def sol_to_lamports_1)

lemma parse_vote_2:
  "parse_recipient_line example_library (vote_program @ lit '' 2'') n None
     = Inr \<lparr>address = vote_program, lamports = 2000000000\<rparr>"
  unfolding parse_recipient_line_def tokens_vote_2
  by (simp add: example_library_def sol_to_lamports_2 lit_def)

lemma parse_stake_tiny:
  "parse_recipient_line example_library (stake_program @ lit '' 0.0000000001'') n None
     = Inl AmountTooSmall"
  unfolding parse_recipient_line_def tokens_stake_tiny
  by (simp add: example_library_def sol_to_lamports_tiny lit_def)

lemma parse_lines_Cons_parsed:
  assumes "lstrip_bom (strip raw_line) = line" and "line \<noteq> []"
    and "hd line \<noteq> of_char CHR ''#''"
    and "parse_recipient_line L line n d = Inr r"
  shows "parse_lines L d n (raw_line # rest) rs ws = parse_lines L d (n + 1) rest (rs @ [r]) ws"
  using assms by simp

lemma parse_lines_Cons_raised:
  assumes "lstrip_bom (strip raw_line) = line" and "line \<noteq> []"
    and "hd line \<noteq> of_char CHR ''#''"
    and "parse_recipient_line L line n d = Inl exc" and "class_of exc \<noteq> RecipientParseError"
  shows "parse_lines L d n (raw_line # rest) rs ws = Inl exc"
  using assms by simp

lemma parse_lines_two_vote:
  "parse_lines example_library None 1
       [lit ''Vote111111111111111111111111111111111111111 1'',
        lit ''Vote111111111111111111111111111111111111111 2''] [] []
     = Inr ([\<lparr>address = vote_program, lamports = 1000000000\<rparr>,
             \<lparr>address = vote_program, lamports = 2000000000\<rparr>], [])"
  apply (subst parse_lines_Cons_parsed
           [OF line_vote_1 line_not_comment(1) line_not_comment(2) parse_vote_1])
  apply (subst parse_lines_Cons_parsed
           [OF line_vote_2 line_not_comment(1) line_not_comment(2) parse_vote_2])
  apply simp
  done

lemma parse_lines_tiny:
  "parse_lines example_library None 1
       [lit ''Vote111111111111111111111111111111111111111 1'',
        lit ''Stake11111111111111111111111111111111111111 0.0000000001''] [] []
     = Inl AmountTooSmall"
  apply (subst parse_lines_Cons_parsed
           [OF line_vote_1 line_not_comment(1) line_not_comment(2) parse_vote_1])
  apply (subst parse_lines_Cons_raised
           [OF line_stake_tiny line_not_comment(3) line_not_comment(4) parse_stake_tiny])
   apply simp_all
  done

lemma read_two_vote:
  "read_recipients_from_file example_library ''wallets.txt''
       (Holding [lit ''Vote111111111111111111111111111111111111111 1'',
                 lit ''Vote111111111111111111111111111111111111111 2'']) None default_manager
   = (Inr [\<lparr>address = vote_program, lamports = 3 * int LAMPORTS_PER_SOL\<rparr>],
      default_manager\<lparr>last_recipient_warnings := [DuplicateWarning vote_program 2]\<rparr>)"
  unfolding read_recipients_from_file_def disk_file.case parse_lines_two_vote
  by (simp add: LAMPORTS_PER_SOL_def)

subsection \<open>Merged addresses\<close>

text \<open>
  C6. When \<^verbatim>\<open>read_recipients_from_file\<close> returns, the lines that were parsed
  (\<open>recipients_raw\<close>, each with the lamports its amount converts to) and that share an
  address have become one recipient, whose lamports are the sum of the lamports of those
  lines; no address is returned twice; and among the warnings there is exactly one notice
  of a duplicate for every address that occurs more than once, which names the address and
  the number of its occurrences, and no other notice of a duplicate. With two lines for
  the same address, of 1 and of 2 SOL, the result is one recipient of
  \<open>3 * LAMPORTS_PER_SOL\<close> lamports and the one warning that the address occurs 2 times.
\<close>

theorem read_recipients_merges_duplicates:
  assumes "read_recipients_from_file L path file d m = (Inr recipients, m')"
  shows "\<exists>raw_lines recipients_raw line_warnings.
     file = Holding raw_lines \<and>
     parse_lines L d 1 raw_lines [] [] = Inr (recipients_raw, line_warnings) \<and>
     recipients = map (\<lambda>a. \<lparr>address = a, lamports = total_for a recipients_raw\<rparr>)
                      (first_seen {} (map address recipients_raw)) \<and>
     distinct (map address recipients) \<and>
     (\<forall>a n. count_list (last_recipient_warnings m') (DuplicateWarning a n)
              = (if 1 < count_list (map address recipients_raw) a \<and>
                    n = count_list (map address recipients_raw) a then 1 else 0))"
proof -
  from read_recipients_Inr[OF assms] obtain raw_lines recipients_raw line_warnings where
    f: "file = Holding raw_lines" and
    p: "parse_lines L d 1 raw_lines [] [] = Inr (recipients_raw, line_warnings)" and
    r: "recipients = map snd (fst (aggregate recipients_raw [] []))" and
    w: "last_recipient_warnings m' = line_warnings @
          map (\<lambda>(a, count). DuplicateWarning a (count + 1)) (snd (aggregate recipients_raw [] []))"
    by blast
  let ?dups = "snd (aggregate recipients_raw [] [])"
  let ?c = "\<lambda>a. count_list (map address recipients_raw) a"
  have r': "recipients = map (\<lambda>a. \<lparr>address = a, lamports = total_for a recipients_raw\<rparr>)
                      (first_seen {} (map address recipients_raw))"
    unfolding r by (simp only: aggregate_recipients)
  have dist: "distinct (map address recipients)"
    unfolding r' by (simp add: comp_def distinct_first_seen)
  from parse_lines_warnings[OF p] obtain ws where lw: "line_warnings = map LineWarning ws"
    by auto
  have dd: "distinct (map fst ?dups)"
    by (rule aggregate_duplicates_distinct) simp
  have m: "map_of ?dups a = (if ?c a - 1 = 0 then None else Some (?c a - 1))" for a
    by (simp add: aggregate_duplicates Let_def)
  have cnt: "count_list (last_recipient_warnings m') (DuplicateWarning a n)
             = (if 1 < ?c a \<and> n = ?c a then 1 else 0)" for a n
    unfolding w lw count_list_app count_line_warnings
    using count_duplicate_warnings[OF dd, of a n] m[of a] by auto
  from f p r' dist cnt show ?thesis by blast
qed

theorem read_recipients_merges_duplicates_witness:
  "read_recipients_from_file example_library ''wallets.txt''
       (Holding [lit ''Vote111111111111111111111111111111111111111 1'',
                 lit ''Vote111111111111111111111111111111111111111 2'']) None default_manager
   = (Inr [\<lparr>address = vote_program, lamports = 3 * int LAMPORTS_PER_SOL\<rparr>],
      default_manager\<lparr>last_recipient_warnings := [DuplicateWarning vote_program 2]\<rparr>)
   \<and> (\<exists>recipients_raw line_warnings.
       parse_lines example_library None 1
           [lit ''Vote111111111111111111111111111111111111111 1'',
            lit ''Vote111111111111111111111111111111111111111 2''] [] []
         = Inr (recipients_raw, line_warnings) \<and>
       [\<lparr>address = vote_program, lamports = 3 * int LAMPORTS_PER_SOL\<rparr>]
         = map (\<lambda>a. \<lparr>address = a, lamports = total_for a recipients_raw\<rparr>)
             (first_seen {} (map address recipients_raw)) \<and>
       (\<forall>a n. count_list [DuplicateWarning vote_program 2] (DuplicateWarning a n)
                = (if 1 < count_list (map address recipients_raw) a \<and>
                      n = count_list (map address recipients_raw) a then 1 else 0)))"
  using read_recipients_merges_duplicates[OF read_two_vote] read_two_vote
  by simp

subsection \<open>The total of a file\<close>

text \<open>
  C10. When \<^verbatim>\<open>read_recipients_from_file\<close> returns, \<^verbatim>\<open>sum_lamports\<close> of the
  recipients returned is \<^verbatim>\<open>sum_lamports\<close> of the lines that were parsed
  (\<open>recipients_raw\<close>): merging loses no lamport and adds none. The addresses of the
  recipients returned are those of the parsed lines in the order of their first
  occurrence.
\<close>

theorem read_recipients_keeps_total:
  assumes "read_recipients_from_file L path file d m = (Inr recipients, m')"
  shows "\<exists>raw_lines recipients_raw line_warnings.
     file = Holding raw_lines \<and>
     parse_lines L d 1 raw_lines [] [] = Inr (recipients_raw, line_warnings) \<and>
     sum_lamports recipients = sum_lamports recipients_raw \<and>
     map address recipients = first_seen {} (map address recipients_raw)"
proof -
  from read_recipients_Inr[OF assms] obtain raw_lines recipients_raw line_warnings where
    f: "file = Holding raw_lines" and
    p: "parse_lines L d 1 raw_lines [] [] = Inr (recipients_raw, line_warnings)" and
    r: "recipients = map snd (fst (aggregate recipients_raw [] []))"
    by blast
  have s: "sum_lamports recipients = sum_lamports recipients_raw"
    unfolding r sum_lamports_values aggregate_sum by (simp add: sum_dict_def)
  have "recipients = map (\<lambda>a. \<lparr>address = a, lamports = total_for a recipients_raw\<rparr>)
                      (first_seen {} (map address recipients_raw))"
    unfolding r by (simp only: aggregate_recipients)
  then have o: "map address recipients = first_seen {} (map address recipients_raw)"
    by (simp add: comp_def)
  from f p s o show ?thesis by blast
qed

theorem read_recipients_keeps_total_witness:
  "read_recipients_from_file example_library ''wallets.txt''
       (Holding [lit ''Vote111111111111111111111111111111111111111 1'',
                 lit ''Vote111111111111111111111111111111111111111 2'']) None default_manager
   = (Inr [\<lparr>address = vote_program, lamports = 3 * int LAMPORTS_PER_SOL\<rparr>],
      default_manager\<lparr>last_recipient_warnings := [DuplicateWarning vote_program 2]\<rparr>)
   \<and> (\<exists>recipients_raw line_warnings.
       parse_lines example_library None 1
           [lit ''Vote111111111111111111111111111111111111111 1'',
            lit ''Vote111111111111111111111111111111111111111 2''] [] []
         = Inr (recipients_raw, line_warnings) \<and>
       sum_lamports [\<lparr>address = vote_program, lamports = 3 * int LAMPORTS_PER_SOL\<rparr>]
         = sum_lamports recipients_raw \<and>
       map address [\<lparr>address = vote_program, lamports = 3 * int LAMPORTS_PER_SOL\<rparr>]
         = first_seen {} (map address recipients_raw))"
  using read_recipients_keeps_total[OF read_two_vote] read_two_vote
  by simp

subsection \<open>An amount below one lamport\<close>

text \<open>
  C4. A file of two lines, read with no default amount: 1 SOL for the vote program and
  \<^verbatim>\<open>0.0000000001\<close> SOL for the stake program. The second amount is a tenth of a
  lamport, so \<^verbatim>\<open>_sol_to_lamports\<close> raises the \<^verbatim>\<open>ValueError\<close> of line 440.
  Line 268 catches \<^verbatim>\<open>RecipientParseError\<close> only, so the exception leaves
  \<^verbatim>\<open>read_recipients_from_file\<close>: no recipient is returned, not even the one of
  the valid first line, and no warning is recorded, \<^verbatim>\<open>last_recipient_warnings\<close>
  being what it was before the call.
\<close>

theorem read_recipients_tiny_amount_aborts:
  "read_recipients_from_file example_library ''wallets.txt''
       (Holding [lit ''Vote111111111111111111111111111111111111111 1'',
                 lit ''Stake11111111111111111111111111111111111111 0.0000000001''])
       None default_manager
     = (Inl AmountTooSmall, default_manager)
   \<and> class_of AmountTooSmall = ValueError
   \<and> class_of AmountTooSmall \<noteq> RecipientParseError
   \<and> last_recipient_warnings default_manager = []"
  unfolding read_recipients_from_file_def disk_file.case parse_lines_tiny
  by (simp add: default_manager_def)

section \<open>Properties of the clock\<close>

lemma call_takes_time: "takes_time (call wrap rpc req)"
  by (simp add: takes_time_def call_def split: prod.split)

lemma time_sleep_clock: "time_sleep d w = Inr w' \<Longrightarrow> now w' = now w + d \<and> 0 \<le> d"
  by (auto simp: time_sleep_def split: if_splits)

lemma perform_loop_clock:
  "takes_time func \<Longrightarrow>
   perform_loop func attempts total_endpoints max_attempts last_error m w = (r, m', w')
   \<Longrightarrow> now w \<le> now w'"
proof (induction func attempts total_endpoints max_attempts last_error m w
         rule: perform_loop.induct)
  case (1 func attempts total_endpoints max_attempts last_error m w)
  show ?case
  proof (cases "attempts < max_attempts")
    case False
    with "1.prems"(2) show ?thesis by (subst (asm) perform_loop.simps) simp
  next
    case True
    obtain r1 w1 where f: "func (client m) w = (r1, w1)" by (cases "func (client m) w")
    from "1.prems"(1) have "now w \<le> now (snd (func (client m) w))"
      by (simp add: takes_time_def)
    with f have le1: "now w \<le> now w1" by simp
    show ?thesis
    proof (cases r1)
      case (Inr v)
      with True f "1.prems"(2) have "w' = w1" by (subst (asm) perform_loop.simps) simp
      with le1 show ?thesis by simp
    next
      case (Inl exc)
      show ?thesis
      proof (cases "time_sleep (retry_backoff_seconds m * real_of_int (min (attempts + 1) 4)) w1")
        case (Inl e)
        with True f \<open>r1 = Inl exc\<close> "1.prems"(2) have "w' = w1"
          by (subst (asm) perform_loop.simps) simp
        with le1 show ?thesis by simp
      next
        case (Inr w2)
        from time_sleep_clock[OF Inr] have le2: "now w1 \<le> now w2" by simp
        from True f \<open>r1 = Inl exc\<close> Inr "1.prems"(2)
        have "perform_loop func (attempts + 1) total_endpoints max_attempts (Some exc)
                (if total_endpoints > 1 \<and> (attempts + 1) mod max_retries_per_endpoint m = 0
                 then rotate_endpoint m else m) w2 = (r, m', w')"
          by (subst (asm) perform_loop.simps) simp
        from "1.IH"[OF True f[symmetric] \<open>r1 = Inl exc\<close> Inr "1.prems"(1) this]
        have "now w2 \<le> now w'" .
        with le1 le2 show ?thesis by simp
      qed
    qed
  qed
qed

lemma perform_clock:
  "takes_time func \<Longrightarrow> perform func m w = (r, m', w') \<Longrightarrow> now w \<le> now w'"
  unfolding perform_def Let_def by (rule perform_loop_clock)

lemma poll_decreases:
  fixes deadline t t' :: real
  assumes "t < deadline" and "t + 4 / 5 \<le> t'"
  shows "nat \<lceil>(deadline - t') * 5 / 4\<rceil> < nat \<lceil>(deadline - t) * 5 / 4\<rceil>"
proof -
  let ?x = "(deadline - t) * 5 / 4"
  let ?y = "(deadline - t') * 5 / 4"
  from assms(1) have pos: "0 < ?x" by simp
  from assms(2) have "?y \<le> ?x - 1" by argo
  then have "\<lceil>?y\<rceil> \<le> \<lceil>?x - 1\<rceil>" by (rule ceiling_mono)
  then have "\<lceil>?y\<rceil> \<le> \<lceil>?x\<rceil> - 1" by simp
  moreover from pos have "0 < \<lceil>?x\<rceil>" by simp
  ultimately show ?thesis by linarith
qed

lemma statuses_takes_time: "takes_time (signature_statuses T signatures)"
  unfolding signature_statuses_def by (rule call_takes_time)

lemma poll_step:
  assumes "now w < deadline"
    and "perform (signature_statuses T [signature]) m w = (r, m1, w1)"
    and "time_sleep (4 / 5) w1 = Inr w2"
  shows "nat \<lceil>(deadline - now w2) * 5 / 4\<rceil> < nat \<lceil>(deadline - now w) * 5 / 4\<rceil>"
proof -
  from perform_clock[OF statuses_takes_time assms(2)] have "now w \<le> now w1" .
  moreover from time_sleep_clock[OF assms(3)] have "now w2 = now w1 + 4 / 5" by simp
  ultimately have "now w + 4 / 5 \<le> now w2" by simp
  with assms(1) show ?thesis by (rule poll_decreases)
qed

termination await_loop
proof (relation "measure (\<lambda>(T, signature, deadline, timeout_seconds, last_status, m, w).
                   nat \<lceil>(deadline - now w) * 5 / 4\<rceil>)", goal_cases)
  case 1
  show ?case by simp
next
  case (2 T signature deadline timeout_seconds last_status m w x y x2 x1 ya x21 x22 x2a)
  then show ?case using poll_step[of w deadline T signature m] by (metis (no_types, lifting) in_measure case_prod_conv)
next
  case (3 T signature deadline timeout_seconds last_status m w x y x2 x1 ya x21 x22 a x2a)
  then show ?case using poll_step[of w deadline T signature m] by (metis (no_types, lifting) in_measure case_prod_conv)
qed

section \<open>Properties of the confirmation\<close>

lemma signature_2_accepted: "signature_accepted example_library signature_2"
  by (simp add: example_library_def signature_2_def nth_append)

lemma signature_3_accepted: "signature_accepted example_library signature_3"
  by (simp add: example_library_def signature_3_def nth_append)

lemma default_run_of_call:
  "rpc w (client default_manager) = (Inr v, ms) \<Longrightarrow>
   perform (call wrap rpc req) default_manager w
     = (Inr v, default_manager,
        w\<lparr>now := now w + real ms / 1000,
          events := events w @ [Call (client default_manager) req (Inr (wrap v))]\<rparr>)"
  by (simp add: perform_def call_def default_manager_def)

lemma lower_confirmed: "lower_ascii (lit ''confirmed'') = lit ''confirmed''"
  by (simp add: lower_ascii_def lit_def)

lemma lower_processed: "lower_ascii (lit ''processed'') = lit ''processed''"
  by (simp add: lower_ascii_def lit_def)

lemma processed_is_neither:
  "lit ''processed'' \<noteq> lit ''confirmed''" "lit ''processed'' \<noteq> lit ''finalized''"
  by (simp_all add: lit_def)

text \<open>
  C3. The wait does not look at the commitment: \<^verbatim>\<open>_await_confirmation\<close> gives the
  same result whatever commitment it is called with. On a ledger that reports the
  signature with no error and at the level \<open>confirmed\<close>, the wait for the commitment
  \<open>finalized\<close> succeeds at the first answer. On a ledger that reports it at the level
  \<open>processed\<close> with one confirmation, the wait for \<open>finalized\<close> succeeds as well:
  the count is taken although a level is named.
\<close>

theorem await_confirmation_ignores_commitment:
  "await_confirmation L T signature timeout_seconds commitment m w
     = await_confirmation L T signature timeout_seconds (lit ''finalized'') m w
   \<and> await_confirmation example_library confirmed_ledger signature_2 60 (lit ''finalized'')
        default_manager \<lparr>now = 0, events = []\<rparr>
     = (Inr (), default_manager,
        \<lparr>now = 1 / 10,
         events = [Call (client default_manager) (GetSignatureStatuses [signature_2])
                     (Inr (Statuses [Some \<lparr>err = None,
                                            confirmation_status = Some (lit ''confirmed''),
                                            confirmations = None\<rparr>]))]\<rparr>)
   \<and> await_confirmation example_library processed_ledger signature_2 60 (lit ''finalized'')
        default_manager \<lparr>now = 0, events = []\<rparr>
     = (Inr (), default_manager,
        \<lparr>now = 1 / 10,
         events = [Call (client default_manager) (GetSignatureStatuses [signature_2])
                     (Inr (Statuses [Some \<lparr>err = None,
                                            confirmation_status = Some (lit ''processed''),
                                            confirmations = Some 1\<rparr>]))]\<rparr>)"
proof -
  have a: "await_confirmation L T signature timeout_seconds commitment m w
     = await_confirmation L T signature timeout_seconds (lit ''finalized'') m w"
    by (simp add: await_confirmation_def)
  have p1: "perform (signature_statuses confirmed_ledger [signature_2]) default_manager
              \<lparr>now = 0, events = []\<rparr>
      = (Inr [Some \<lparr>err = None, confirmation_status = Some (lit ''confirmed''),
                     confirmations = None\<rparr>], default_manager,
         \<lparr>now = 1 / 10,
          events = [Call (client default_manager) (GetSignatureStatuses [signature_2])
                     (Inr (Statuses [Some \<lparr>err = None,
                                            confirmation_status = Some (lit ''confirmed''),
                                            confirmations = None\<rparr>]))]\<rparr>)"
    unfolding signature_statuses_def
    by (subst default_run_of_call) (simp_all add: confirmed_ledger_def)
  have b: "await_confirmation example_library confirmed_ledger signature_2 60 (lit ''finalized'')
        default_manager \<lparr>now = 0, events = []\<rparr>
     = (Inr (), default_manager,
        \<lparr>now = 1 / 10,
         events = [Call (client default_manager) (GetSignatureStatuses [signature_2])
                     (Inr (Statuses [Some \<lparr>err = None,
                                            confirmation_status = Some (lit ''confirmed''),
                                            confirmations = None\<rparr>]))]\<rparr>)"
    unfolding await_confirmation_def Let_def
    apply (simp add: signature_2_accepted del: await_loop.simps)
    apply (subst await_loop.simps)
    apply (simp add: p1 level_confirms_def lower_confirmed del: await_loop.simps)
    done
  have p2: "perform (signature_statuses processed_ledger [signature_2]) default_manager
              \<lparr>now = 0, events = []\<rparr>
      = (Inr [Some \<lparr>err = None, confirmation_status = Some (lit ''processed''),
                     confirmations = Some 1\<rparr>], default_manager,
         \<lparr>now = 1 / 10,
          events = [Call (client default_manager) (GetSignatureStatuses [signature_2])
                     (Inr (Statuses [Some \<lparr>err = None,
                                            confirmation_status = Some (lit ''processed''),
                                            confirmations = Some 1\<rparr>]))]\<rparr>)"
    unfolding signature_statuses_def
    by (subst default_run_of_call) (simp_all add: processed_ledger_def confirmed_ledger_def)
  have c: "await_confirmation example_library processed_ledger signature_2 60 (lit ''finalized'')
        default_manager \<lparr>now = 0, events = []\<rparr>
     = (Inr (), default_manager,
        \<lparr>now = 1 / 10,
         events = [Call (client default_manager) (GetSignatureStatuses [signature_2])
                     (Inr (Statuses [Some \<lparr>err = None,
                                            confirmation_status = Some (lit ''processed''),
                                            confirmations = Some 1\<rparr>]))]\<rparr>)"
    unfolding await_confirmation_def Let_def
    apply (simp add: signature_2_accepted del: await_loop.simps)
    apply (subst await_loop.simps)
    apply (simp add: p2 level_confirms_def count_confirms_def lower_processed processed_is_neither
                del: await_loop.simps)
    done
  from a b c show ?thesis by (simp only: simp_thms)
qed

section \<open>Properties of the history\<close>

lemma answers_append [simp]: "answers (xs @ ys) = answers xs @ answers ys"
  by (simp add: answers_def)

lemma answers_Nil [simp]: "answers [] = []"
  by (simp add: answers_def)

lemma answers_single [simp]: "answers [ev] = answered ev"
  by (simp add: answers_def)

lemma ledger_answers_append [simp]:
  "ledger_answers (xs @ ys) = ledger_answers xs @ ledger_answers ys"
  by (simp add: ledger_answers_def)

lemma call_events:
  "call wrap rpc req c w = (r, w1) \<Longrightarrow>
   events w1 = events w @ [Call c req (case r of Inl e \<Rightarrow> Inl e | Inr v \<Rightarrow> Inr (wrap v))]"
  by (auto simp: call_def split: prod.splits)

lemma time_sleep_events: "time_sleep d w = Inr w' \<Longrightarrow> events w' = events w @ [Sleep d]"
  by (auto simp: time_sleep_def split: if_splits)

lemma perform_loop_answers:
  "func = call wrap rpc req \<Longrightarrow>
   perform_loop func attempts total_endpoints max_attempts last_error m w = (r, m', w') \<Longrightarrow>
   answers (events w') =
     answers (events w) @ (case r of Inl e \<Rightarrow> [] | Inr v \<Rightarrow> [(req, wrap v)])"
proof (induction func attempts total_endpoints max_attempts last_error m w
         rule: perform_loop.induct)
  case (1 func attempts total_endpoints max_attempts last_error m w)
  show ?case
  proof (cases "attempts < max_attempts")
    case False
    with "1.prems"(2) show ?thesis by (subst (asm) perform_loop.simps) auto
  next
    case True
    obtain r1 w1 where f: "func (client m) w = (r1, w1)" by (cases "func (client m) w")
    from f "1.prems"(1) have ev1: "events w1 = events w @
        [Call (client m) req (case r1 of Inl e \<Rightarrow> Inl e | Inr v \<Rightarrow> Inr (wrap v))]"
      by (simp add: call_events)
    show ?thesis
    proof (cases r1)
      case (Inr v)
      with True f "1.prems"(2) have "w' = w1" "r = Inr v"
        by (subst (asm) perform_loop.simps, simp)+
      with ev1 Inr show ?thesis by simp
    next
      case (Inl exc)
      with ev1 have a1: "answers (events w1) = answers (events w)" by simp
      show ?thesis
      proof (cases "time_sleep (retry_backoff_seconds m * real_of_int (min (attempts + 1) 4)) w1")
        case (Inl e)
        with True f \<open>r1 = Inl exc\<close> "1.prems"(2) have "w' = w1" "r = Inl e"
          by (subst (asm) perform_loop.simps, simp)+
        with a1 show ?thesis by simp
      next
        case (Inr w2)
        from time_sleep_events[OF Inr] a1 have a2: "answers (events w2) = answers (events w)"
          by simp
        from True f \<open>r1 = Inl exc\<close> Inr "1.prems"(2)
        have "perform_loop func (attempts + 1) total_endpoints max_attempts (Some exc)
                (if total_endpoints > 1 \<and> (attempts + 1) mod max_retries_per_endpoint m = 0
                 then rotate_endpoint m else m) w2 = (r, m', w')"
          by (subst (asm) perform_loop.simps) simp
        from "1.IH"[OF True f[symmetric] \<open>r1 = Inl exc\<close> Inr "1.prems"(1) this] a2
        show ?thesis by simp
      qed
    qed
  qed
qed

lemma perform_answers:
  "perform (call wrap rpc req) m w = (r, m', w') \<Longrightarrow>
   answers (events w') =
     answers (events w) @ (case r of Inl e \<Rightarrow> [] | Inr v \<Rightarrow> [(req, wrap v)])"
  unfolding perform_def Let_def by (rule perform_loop_answers[OF refl])

lemma poll_ledger_answers:
  "perform (signature_statuses T signatures) m w = (r, m', w') \<Longrightarrow>
   ledger_answers (events w') = ledger_answers (events w)"
  unfolding signature_statuses_def
  by (drule perform_answers) (simp add: ledger_answers_def split: sum.splits)

lemma sleep_ledger_answers:
  "time_sleep d w = Inr w' \<Longrightarrow> ledger_answers (events w') = ledger_answers (events w)"
  by (drule time_sleep_events) (simp add: ledger_answers_def)

lemma await_loop_ledger_answers:
  "await_loop T signature deadline timeout_seconds last_status m w = (r, m', w') \<Longrightarrow>
   ledger_answers (events w') = ledger_answers (events w)"
proof (induction T signature deadline timeout_seconds last_status m w rule: await_loop.induct)
  case (1 T signature deadline timeout_seconds last_status m w)
  show ?case
  proof (cases "now w < deadline")
    case False
    with "1.prems" show ?thesis by (subst (asm) await_loop.simps) simp
  next
    case True
    obtain r1 m1 w1 where p: "perform (signature_statuses T [signature]) m w = (r1, m1, w1)"
      by (cases "perform (signature_statuses T [signature]) m w") auto
    note l1 = poll_ledger_answers[OF p]
    show ?thesis
    proof (cases r1)
      case (Inl e)
      with True p "1.prems" have "w' = w1" by (subst (asm) await_loop.simps) simp
      with l1 show ?thesis by simp
    next
      case (Inr response_value)
      show ?thesis
      proof (cases response_value)
        case Nil
        with True p Inr "1.prems" have "w' = w1" by (subst (asm) await_loop.simps) simp
        with l1 show ?thesis by simp
      next
        case (Cons first others)
        show ?thesis
        proof (cases first)
          case None
          show ?thesis
          proof (cases "time_sleep (4 / 5) w1")
            case (Inl e)
            with True p Inr Cons None "1.prems" have "w' = w1"
              by (subst (asm) await_loop.simps) simp
            with l1 show ?thesis by simp
          next
            case (Inr w2)
            from True p \<open>r1 = Inr response_value\<close> Cons None Inr "1.prems"
            have run: "await_loop T signature deadline timeout_seconds last_status m1 w2
                         = (r, m', w')"
              by (subst (asm) await_loop.simps) simp
            have yy: "(m1, w1) = (m1, w1)" ..
            from "1.IH"(1)[OF True p[symmetric] \<open>r1 = Inr response_value\<close> yy Cons None Inr run]
                 sleep_ledger_answers[OF Inr] l1
            show ?thesis by simp
          qed
        next
          case (Some status)
          show ?thesis
          proof (cases "err status")
            case (Some failure)
            with True p Inr Cons \<open>first = Some status\<close> "1.prems" have "w' = w1"
              by (subst (asm) await_loop.simps) simp
            with l1 show ?thesis by simp
          next
            case None
            show ?thesis
            proof (cases "level_confirms status \<or> count_confirms status")
              case True
              with \<open>now w < deadline\<close> p Inr Cons \<open>first = Some status\<close> None "1.prems"
              have "w' = w1" by (subst (asm) await_loop.simps) (auto split: if_splits)
              with l1 show ?thesis by simp
            next
              case False
              then have nl: "\<not> level_confirms status" and nc: "\<not> count_confirms status"
                by simp_all
              show ?thesis
              proof (cases "time_sleep (4 / 5) w1")
                case (Inl e)
                with \<open>now w < deadline\<close> p \<open>r1 = Inr response_value\<close> Cons
                     \<open>first = Some status\<close> None nl nc "1.prems"
                have "w' = w1" by (subst (asm) await_loop.simps) simp
                with l1 show ?thesis by simp
              next
                case (Inr w2)
                from \<open>now w < deadline\<close> p \<open>r1 = Inr response_value\<close> Cons
                     \<open>first = Some status\<close> None nl nc Inr "1.prems"
                have run: "await_loop T signature deadline timeout_seconds (Some status) m1 w2
                             = (r, m', w')"
                  by (subst (asm) await_loop.simps) simp
                have yy: "(m1, w1) = (m1, w1)" ..
                from "1.IH"(2)[OF \<open>now w < deadline\<close> p[symmetric] \<open>r1 = Inr response_value\<close> yy
                                  Cons \<open>first = Some status\<close> None nl nc Inr run]
                     sleep_ledger_answers[OF Inr] l1
                show ?thesis by simp
              qed
            qed
          qed
        qed
      qed
    qed
  qed
qed

end
